theory Spec2Isabelle
  imports Complex_Main
begin

section \<open>JavaScript values used by the two source files\<close>

text \<open>
  A JavaScript number where the source can produce or receive a non-finite one (the
  analysis buffers and the loudness reading: \<^verbatim>\<open>volume: -Infinity\<close>). Crossfade values,
  ramp times and durations are modelled as \<open>real\<close>: the source only compares them with
  \<open>0\<close> and multiplies a duration by \<open>1000\<close>.
\<close>

datatype jsnum = Num real | PosInfinity | NegInfinity | NaN

text \<open>The exceptions the modelled code can raise or pass on.\<close>

datatype error =
    TypeError        \<comment> \<open>property read on \<^verbatim>\<open>null\<close>, or \<^verbatim>\<open>new\<close> on something that is no constructor\<close>
  | RangeError       \<comment> \<open>the fade parameter refuses a value outside its range\<close>
  | ModuleNotFound   \<comment> \<open>the dynamic \<^verbatim>\<open>import(path)\<close> rejects\<close>
  | PluginError      \<comment> \<open>a plugin's constructor or \<^verbatim>\<open>init()\<close> throws or rejects\<close>

section \<open>audio-chain.js: class AudioChain\<close>

text \<open>
  The Tone.js nodes the chain owns. Tone.js is an external library: a node is modelled by
  the part of its state that the source reads or writes. \<open>fade_value\<close> is the value last
  assigned to \<^verbatim>\<open>crossfade.fade.value\<close>, \<open>fade_ramp\<close> the last \<^verbatim>\<open>rampTo(value, rampTime)\<close>
  still in force (its target and its time). A new \<^verbatim>\<open>Tone.CrossFade()\<close> starts at \<open>0.5\<close>. The \<open>*_disposed\<close> flags
  record the node's \<^verbatim>\<open>dispose()\<close> call; \<open>cf_a\<close> and \<open>cf_b\<close> list the outputs connected to
  the two inputs.
\<close>

record fade_param =
  fade_value :: real
  fade_ramp :: "(real \<times> real) option"

record crossfade_node =
  fade :: fade_param
  cf_a :: "nat list"
  cf_b :: "nat list"
  cf_disposed :: bool

record analyser_node =
  an_kind :: string
  an_size :: nat
  an_disposed :: bool

record meter_node =
  mt_disposed :: bool

record volume_node =
  volume_db :: real
  vol_disposed :: bool

record audio_chain =
  crossfade :: "crossfade_node option"
  analyser :: "analyser_node option"
  waveformAnalyser :: "analyser_node option"
  meter :: "meter_node option"
  master :: "volume_node option"
  isInitialized :: bool

text \<open>The object \<^verbatim>\<open>getAudioData()\<close> returns.\<close>

record audio_data =
  frequencyData :: "jsnum list"
  waveformData :: "jsnum list"
  volume :: jsnum

text \<open>
  What the three analysis nodes' \<^verbatim>\<open>getValue()\<close> return at the moment of a call: results
  of external calls, passed in.
\<close>

record tone_readings =
  fft_reading :: "jsnum list"
  waveform_reading :: "jsnum list"
  meter_reading :: jsnum

text \<open>The constructor: every node \<^verbatim>\<open>null\<close>, \<^verbatim>\<open>isInitialized = false\<close>.\<close>

definition new_AudioChain :: audio_chain where
  "new_AudioChain =
     \<lparr>crossfade = None, analyser = None, waveformAnalyser = None, meter = None,
      master = None, isInitialized = False\<rparr>"

text \<open>\<^verbatim>\<open>init()\<close>: fresh nodes replace whatever the fields held.\<close>

definition chain_init :: "audio_chain \<Rightarrow> audio_chain" where
  "chain_init ac =
     ac\<lparr>crossfade := Some \<lparr>fade = \<lparr>fade_value = 1/2, fade_ramp = None\<rparr>,
                             cf_a = [], cf_b = [], cf_disposed = False\<rparr>,
        analyser := Some \<lparr>an_kind = ''fft'', an_size = 1024, an_disposed = False\<rparr>,
        waveformAnalyser := Some \<lparr>an_kind = ''waveform'', an_size = 1024, an_disposed = False\<rparr>,
        meter := Some \<lparr>mt_disposed = False\<rparr>,
        master := Some \<lparr>volume_db = 0, vol_disposed = False\<rparr>,
        isInitialized := True\<rparr>"

text \<open>
  \<^verbatim>\<open>new Float32Array(1024)\<close>: 1024 entries, each \<open>0\<close>.
\<close>

definition Float32Array :: "nat \<Rightarrow> jsnum list" where
  "Float32Array n = replicate n (Num 0)"

text \<open>
  \<^verbatim>\<open>getAudioData()\<close>. With \<^verbatim>\<open>isInitialized\<close> set, \<^verbatim>\<open>this.analyser.getValue()\<close> on a
  \<^verbatim>\<open>null\<close> field would be a TypeError.
\<close>

definition getAudioData :: "audio_chain \<Rightarrow> tone_readings \<Rightarrow> error + audio_data" where
  "getAudioData ac r =
     (if \<not> isInitialized ac then
        Inr \<lparr>frequencyData = Float32Array 1024, waveformData = Float32Array 1024,
             volume = NegInfinity\<rparr>
      else if analyser ac = None \<or> waveformAnalyser ac = None \<or> meter ac = None then
        Inl TypeError
      else
        Inr \<lparr>frequencyData = fft_reading r, waveformData = waveform_reading r,
             volume = meter_reading r\<rparr>)"

text \<open>
  \<^verbatim>\<open>connectToDeck(songOutput, deck)\<close>: \<^verbatim>\<open>this.crossfade.a\<close> on a \<^verbatim>\<open>null\<close> crossfade is a
  TypeError. A deck other than \<^verbatim>\<open>'A'\<close> goes to input b.
\<close>

definition connectToDeck :: "audio_chain \<Rightarrow> nat \<Rightarrow> string \<Rightarrow> error + audio_chain" where
  "connectToDeck ac songOutput deck =
     (case crossfade ac of
        None \<Rightarrow> Inl TypeError
      | Some cf \<Rightarrow>
          if deck = ''A'' then Inr (ac\<lparr>crossfade := Some (cf\<lparr>cf_a := cf_a cf @ [songOutput]\<rparr>)\<rparr>)
          else Inr (ac\<lparr>crossfade := Some (cf\<lparr>cf_b := cf_b cf @ [songOutput]\<rparr>)\<rparr>))"

text \<open>
  Modelled from the spec: the fade parameter of \<^verbatim>\<open>Tone.CrossFade\<close>, whose code is
  Tone.js's and not among the source files. The spec's data model has the crossfade
  position as a continuous value in \<open>[0, 1]\<close>, set at once or moved by a monotonic
  ramp from the position reached to the target. So the parameter takes a value from
  \<open>0\<close> to \<open>1\<close>, as the new value (\<^verbatim>\<open>fade.value = v\<close>, which ends a ramp) or as the
  target of a ramp (\<^verbatim>\<open>fade.rampTo(v, t)\<close>), and refuses any other value with a
  RangeError, holding what it held.
\<close>

definition fade_assign :: "fade_param \<Rightarrow> real \<Rightarrow> error + fade_param" where
  "fade_assign p v =
     (if 0 \<le> v \<and> v \<le> 1 then Inr \<lparr>fade_value = v, fade_ramp = None\<rparr> else Inl RangeError)"

definition fade_rampTo :: "fade_param \<Rightarrow> real \<Rightarrow> real \<Rightarrow> error + fade_param" where
  "fade_rampTo p v rampTime =
     (if 0 \<le> v \<and> v \<le> 1 then Inr (p\<lparr>fade_ramp := Some (v, rampTime)\<rparr>) else Inl RangeError)"

text \<open>
  \<^verbatim>\<open>setCrossfade(value, rampTime = 0)\<close>: the value goes to the fade parameter as it is,
  by \<^verbatim>\<open>rampTo\<close> when \<^verbatim>\<open>rampTime > 0\<close> and by assignment otherwise;
  \<^verbatim>\<open>this.crossfade.fade\<close> on a \<^verbatim>\<open>null\<close> crossfade is a TypeError. A caller that
  omits \<^verbatim>\<open>rampTime\<close> is modelled by passing \<open>0\<close>.
\<close>

definition setCrossfade :: "audio_chain \<Rightarrow> real \<Rightarrow> real \<Rightarrow> error + audio_chain" where
  "setCrossfade ac v rampTime =
     (case crossfade ac of
        None \<Rightarrow> Inl TypeError
      | Some cf \<Rightarrow>
          if rampTime > 0 then
            (case fade_rampTo (fade cf) v rampTime of
               Inl e \<Rightarrow> Inl e
             | Inr f \<Rightarrow> Inr (ac\<lparr>crossfade := Some (cf\<lparr>fade := f\<rparr>)\<rparr>))
          else
            (case fade_assign (fade cf) v of
               Inl e \<Rightarrow> Inl e
             | Inr f \<Rightarrow> Inr (ac\<lparr>crossfade := Some (cf\<lparr>fade := f\<rparr>)\<rparr>)))"

definition setMasterVolume :: "audio_chain \<Rightarrow> real \<Rightarrow> error + audio_chain" where
  "setMasterVolume ac db =
     (case master ac of
        None \<Rightarrow> Inl TypeError
      | Some m \<Rightarrow> Inr (ac\<lparr>master := Some (m\<lparr>volume_db := db\<rparr>)\<rparr>))"

text \<open>\<^verbatim>\<open>dispose()\<close>: each node that exists is disposed; the fields keep their references.\<close>

definition chain_dispose :: "audio_chain \<Rightarrow> audio_chain" where
  "chain_dispose ac =
     ac\<lparr>crossfade := map_option (\<lambda>n. n\<lparr>cf_disposed := True\<rparr>) (crossfade ac),
        analyser := map_option (\<lambda>n. n\<lparr>an_disposed := True\<rparr>) (analyser ac),
        waveformAnalyser := map_option (\<lambda>n. n\<lparr>an_disposed := True\<rparr>) (waveformAnalyser ac),
        meter := map_option (\<lambda>n. n\<lparr>mt_disposed := True\<rparr>) (meter ac),
        master := map_option (\<lambda>n. n\<lparr>vol_disposed := True\<rparr>) (master ac),
        isInitialized := False\<rparr>"

text \<open>
  The position the crossfader holds or heads for: the target of the ramp in force, or
  the value last assigned.
\<close>

definition crossfade_position :: "audio_chain \<Rightarrow> real option" where
  "crossfade_position ac =
     map_option (\<lambda>cf. case fade_ramp (fade cf) of None \<Rightarrow> fade_value (fade cf)
                                                 | Some (target, secs) \<Rightarrow> target)
       (crossfade ac)"

subsection \<open>Histories of calls on one AudioChain\<close>

datatype chain_op =
    ChainInit
  | ChainDispose
  | ChainConnect nat string
  | ChainSetCrossfade real real
  | ChainSetMasterVolume real

text \<open>A call that throws leaves the chain as it was.\<close>

definition keep_on_error :: "audio_chain \<Rightarrow> error + audio_chain \<Rightarrow> audio_chain" where
  "keep_on_error ac r = (case r of Inl e \<Rightarrow> ac | Inr ac' \<Rightarrow> ac')"

fun chain_exec :: "audio_chain \<Rightarrow> chain_op \<Rightarrow> audio_chain" where
  "chain_exec ac ChainInit = chain_init ac"
| "chain_exec ac ChainDispose = chain_dispose ac"
| "chain_exec ac (ChainConnect out deck) = keep_on_error ac (connectToDeck ac out deck)"
| "chain_exec ac (ChainSetCrossfade v t) = keep_on_error ac (setCrossfade ac v t)"
| "chain_exec ac (ChainSetMasterVolume db) = keep_on_error ac (setMasterVolume ac db)"

definition chain_run :: "chain_op list \<Rightarrow> audio_chain" where
  "chain_run ops = foldl chain_exec new_AudioChain ops"

text \<open>
  The spec's words for the graph's life cycle, read off the history alone: the graph is
  live when \<open>initialize()\<close> has been called and no \<open>teardown()\<close> has followed it.
\<close>

fun graph_live_after :: "bool \<Rightarrow> chain_op \<Rightarrow> bool" where
  "graph_live_after b ChainInit = True"
| "graph_live_after b ChainDispose = False"
| "graph_live_after b _ = b"

definition graph_live :: "chain_op list \<Rightarrow> bool" where
  "graph_live ops = foldl graph_live_after False ops"

definition default_snapshot :: audio_data where
  "default_snapshot =
     \<lparr>frequencyData = replicate 1024 (Num 0), waveformData = replicate 1024 (Num 0),
      volume = NegInfinity\<rparr>"

section \<open>controller.js: class DJController\<close>

subsection \<open>Plugins, events and the host\<close>

text \<open>
  A Song and a Visual are objects of external plugin classes. \<open>song_ref\<close> and \<open>vis_ref\<close>
  are the object's identity (its address): \<^verbatim>\<open>new\<close> hands out a fresh one, and
  \<^verbatim>\<open>indexOf\<close> compares by it. \<open>song_name = []\<close> stands for a missing or empty
  \<^verbatim>\<open>name\<close> (falsy), \<open>song_optional\<close> lists the optional members the object has
  (\<^verbatim>\<open>on\<close>, \<^verbatim>\<open>jumpToSection\<close>, ...). \<open>vis_canvas\<close> is the \<^verbatim>\<open>_canvas\<close> property,
  \<open>vis_layer\<close> the \<^verbatim>\<open>_layer\<close> property.
\<close>

record song =
  song_ref :: nat
  song_name :: string
  song_optional :: "string list"

record visual =
  vis_ref :: nat
  vis_name :: string
  vis_has_dispose :: bool
  vis_canvas :: "nat option"
  vis_layer :: int

text \<open>
  What a module path resolves to: the dynamic import rejects, or the module's default
  export is no constructor, or it is a class. A class says whether its constructor and
  its \<^verbatim>\<open>init\<close> fail, and what its objects look like. The other plugin methods
  (\<^verbatim>\<open>play\<close>, \<^verbatim>\<open>stop\<close>, \<^verbatim>\<open>dispose\<close>, \<^verbatim>\<open>getMasterOutput\<close>, \<^verbatim>\<open>render\<close>, ...) are taken to
  return normally, as the plugin contract says.
\<close>

record song_class =
  sc_ctor_throws :: bool
  sc_init_rejects :: bool
  sc_name :: string
  sc_optional :: "string list"

record visual_class =
  vc_ctor_throws :: bool
  vc_init_throws :: bool
  vc_name :: string
  vc_has_dispose :: bool

datatype 'c resolution = ImportRejects | NotConstructor | Constructor 'c

record env =
  song_modules :: "string \<Rightarrow> song_class resolution"
  visual_modules :: "string \<Rightarrow> visual_class resolution"
  readings :: "real \<Rightarrow> tone_readings"

text \<open>The topics the controller emits on the bus, with their payloads.\<close>

datatype event =
    SongLoaded string string
  | PlayEv string
  | PauseEv string
  | StopEv string
  | CrossfadeStart string string real
  | CrossfadeComplete string
  | VisualLoaded string int
  | DeckSwitch string

text \<open>
  Everything the controller does to the outside, in the order it does it. \<open>DeckAssign\<close>
  is no call: it marks the assignment \<^verbatim>\<open>this.deckA = song\<close> (or \<^verbatim>\<open>deckB\<close>) so that its
  place among the calls can be read off the trace.
\<close>

datatype effect =
    ConsoleLog string
  | ConsoleWarn string
  | ConsoleError error
  | Emit event
  | ToneStart
  | BusClear
  | SongInit nat
  | SongPlay nat
  | SongPause nat
  | SongStop nat
  | SongDispose nat
  | SongOn nat string
  | SongCall nat string
  | DeckAssign string nat
  | CanvasAppend nat
  | CanvasRemove nat
  | VisualInit nat
  | VisualRender nat
  | VisualDispose nat
  | SetTimeout real
  | RequestFrame nat
  | CancelFrame nat

text \<open>The fields of a DJController.\<close>

record controller =
  audioChain :: audio_chain
  deckA :: "song option"
  deckB :: "song option"
  activeDeck :: string
  visuals :: "visual list"
  visualContainer :: "nat option"
  ctl_isInitialized :: bool
  animationId :: "nat option"

text \<open>
  A pending \<^verbatim>\<open>setTimeout\<close> callback of \<open>startCrossfade\<close>: the time it is due (in
  milliseconds) and the \<^verbatim>\<open>targetDeck\<close> its closure captured.
\<close>

record timer =
  due :: real
  captured :: string

text \<open>
  The controller together with the host around it: the clock (milliseconds), the timer
  queue, the animation frame callbacks requested and not yet run or cancelled (by
  handle), the counters behind \<^verbatim>\<open>requestAnimationFrame\<close> handles and object
  identities, and the trace of effects.
\<close>

record world =
  ctl :: controller
  now :: real
  timers :: "timer list"
  frames :: "nat list"
  next_handle :: nat
  next_ref :: nat
  trace :: "effect list"

definition new_DJController :: controller where
  "new_DJController =
     \<lparr>audioChain = new_AudioChain, deckA = None, deckB = None, activeDeck = ''A'',
      visuals = [], visualContainer = None, ctl_isInitialized = False, animationId = None\<rparr>"

definition new_world :: world where
  "new_world =
     \<lparr>ctl = new_DJController, now = 0, timers = [], frames = [], next_handle = 0,
      next_ref = 0, trace = []\<rparr>"

definition eff :: "effect \<Rightarrow> world \<Rightarrow> world" where
  "eff e w = w\<lparr>trace := trace w @ [e]\<rparr>"

text \<open>The effects a call added to the trace.\<close>

definition new_effects :: "world \<Rightarrow> world \<Rightarrow> effect list" where
  "new_effects w w' = drop (length (trace w)) (trace w')"

text \<open>JavaScript truthiness of \<^verbatim>\<open>this.animationId\<close>: \<^verbatim>\<open>null\<close> and \<open>0\<close> are falsy.\<close>

fun truthy :: "nat option \<Rightarrow> bool" where
  "truthy None = False"
| "truthy (Some h) = (h \<noteq> 0)"

text \<open>\<^verbatim>\<open>this.activeDeck === 'A' ? this.deckA : this.deckB\<close>\<close>

definition activeSong :: "controller \<Rightarrow> song option" where
  "activeSong c = (if activeDeck c = ''A'' then deckA c else deckB c)"

text \<open>The slot a \<open>loadSong\<close> into \<open>deck\<close> writes: \<open>deckA\<close> for \<^verbatim>\<open>'A'\<close>, else \<open>deckB\<close>.\<close>

definition deck_slot :: "string \<Rightarrow> controller \<Rightarrow> song option" where
  "deck_slot deck c = (if deck = ''A'' then deckA c else deckB c)"

text \<open>The \<^verbatim>\<open>catch\<close> blocks of \<open>loadSong\<close> and \<open>loadVisual\<close>: log, then throw the error on.\<close>

definition rethrow :: "error \<Rightarrow> world \<Rightarrow> (error + 'a) \<times> world" where
  "rethrow e w = (Inl e, eff (ConsoleError e) w)"

subsection \<open>init, loadSong\<close>

text \<open>
  Asynchronous methods are modelled as running to completion: nothing else runs
  between an \<^verbatim>\<open>await\<close> and the statement after it.
\<close>

definition init :: "nat \<Rightarrow> world \<Rightarrow> (error + unit) \<times> world" where
  "init container w =
     (let c = (ctl w)\<lparr>audioChain := chain_init (audioChain (ctl w)),
                      visualContainer := Some container, ctl_isInitialized := True\<rparr>
      in case setCrossfade (audioChain c) 0 0 of
           Inl e \<Rightarrow> (Inl e, w\<lparr>ctl := c\<rparr>)
         | Inr ac \<Rightarrow> (Inr (), eff (ConsoleLog ''Initialized'') (w\<lparr>ctl := c\<lparr>audioChain := ac\<rparr>\<rparr>)))"

text \<open>\<^verbatim>\<open>if (deck === 'A' && this.deckA) ... else if (deck === 'B' && this.deckB) ...\<close>\<close>

definition dispose_old :: "string \<Rightarrow> world \<Rightarrow> world" where
  "dispose_old deck w =
     (if deck = ''A'' \<and> deckA (ctl w) \<noteq> None then
        (case deckA (ctl w) of Some old \<Rightarrow> eff (SongDispose (song_ref old)) w | None \<Rightarrow> w)
      else if deck = ''B'' \<and> deckB (ctl w) \<noteq> None then
        (case deckB (ctl w) of Some old \<Rightarrow> eff (SongDispose (song_ref old)) w | None \<Rightarrow> w)
      else w)"

text \<open>\<^verbatim>\<open>if (deck === 'A') this.deckA = song; else this.deckB = song;\<close>\<close>

definition store_song :: "string \<Rightarrow> song \<Rightarrow> world \<Rightarrow> world" where
  "store_song deck s w =
     eff (DeckAssign deck (song_ref s))
       (if deck = ''A'' then w\<lparr>ctl := (ctl w)\<lparr>deckA := Some s\<rparr>\<rparr>
        else w\<lparr>ctl := (ctl w)\<lparr>deckB := Some s\<rparr>\<rparr>)"

text \<open>
  \<^verbatim>\<open>if (song.on) { song.on('sectionChange', ...); song.on('bar', ...); }\<close>. The two
  handlers only re-emit on the bus and call the visuals' optional \<^verbatim>\<open>onSectionChange\<close>;
  they change no field and are not modelled beyond their registration.
\<close>

definition subscribe :: "song \<Rightarrow> world \<Rightarrow> world" where
  "subscribe s w =
     (if ''on'' \<in> set (song_optional s) then
        eff (SongOn (song_ref s) ''bar'') (eff (SongOn (song_ref s) ''sectionChange'') w)
      else w)"

text \<open>
  The part of \<open>loadSong\<close> after \<^verbatim>\<open>await song.init()\<close> has returned: dispose the old
  song, store the new one, connect it, subscribe, emit \<^verbatim>\<open>songLoaded\<close>.
\<close>

definition install_song :: "string \<Rightarrow> song \<Rightarrow> world \<Rightarrow> (error + song) \<times> world" where
  "install_song deck s w =
     (let w1 = store_song deck s (dispose_old deck w)
      in case connectToDeck (audioChain (ctl w1)) (song_ref s) deck of
           Inl e \<Rightarrow> rethrow e w1
         | Inr ac \<Rightarrow>
             let w2 = subscribe s (w1\<lparr>ctl := (ctl w1)\<lparr>audioChain := ac\<rparr>\<rparr>);
                 w3 = eff (Emit (SongLoaded deck
                        (if song_name s = [] then ''unknown'' else song_name s))) w2
             in (Inr s, eff (ConsoleLog ''Song loaded'') w3))"

definition loadSong :: "env \<Rightarrow> string \<Rightarrow> string \<Rightarrow> world \<Rightarrow> (error + song) \<times> world" where
  "loadSong env songPath deck w =
     (let w1 = eff (ConsoleLog ''Loading song'') w
      in case song_modules env songPath of
           ImportRejects \<Rightarrow> rethrow ModuleNotFound w1
         | NotConstructor \<Rightarrow> rethrow TypeError w1
         | Constructor k \<Rightarrow>
             if sc_ctor_throws k then rethrow PluginError w1
             else
               let s = \<lparr>song_ref = next_ref w1, song_name = sc_name k,
                        song_optional = sc_optional k\<rparr>;
                   w2 = eff (SongInit (song_ref s)) (w1\<lparr>next_ref := Suc (next_ref w1)\<rparr>)
               in if sc_init_rejects k then rethrow PluginError w2
                  else install_song deck s w2)"

subsection \<open>loadVisual, removeVisual\<close>

text \<open>
  \<open>loadVisual\<close>: the visual is constructed, then the canvas is created;
  \<^verbatim>\<open>this.visualContainer.clientWidth\<close> on a \<^verbatim>\<open>null\<close> container is a TypeError.
\<close>

definition loadVisual :: "env \<Rightarrow> string \<Rightarrow> int \<Rightarrow> world \<Rightarrow> (error + visual) \<times> world" where
  "loadVisual env visualPath layer w =
     (let w1 = eff (ConsoleLog ''Loading visual'') w
      in case visual_modules env visualPath of
           ImportRejects \<Rightarrow> rethrow ModuleNotFound w1
         | NotConstructor \<Rightarrow> rethrow TypeError w1
         | Constructor k \<Rightarrow>
             if vc_ctor_throws k then rethrow PluginError w1
             else
               let vref = next_ref w1; canvas = Suc vref;
                   w2 = w1\<lparr>next_ref := Suc canvas\<rparr>
               in case visualContainer (ctl w2) of
                    None \<Rightarrow> rethrow TypeError w2
                  | Some container \<Rightarrow>
                      let w3 = eff (VisualInit vref) (eff (CanvasAppend canvas) w2)
                      in if vc_init_throws k then rethrow PluginError w3
                         else
                           let v = \<lparr>vis_ref = vref, vis_name = vc_name k,
                                    vis_has_dispose = vc_has_dispose k,
                                    vis_canvas = Some canvas, vis_layer = layer\<rparr>;
                               w4 = w3\<lparr>ctl := (ctl w3)\<lparr>visuals := visuals (ctl w3) @ [v]\<rparr>\<rparr>;
                               w5 = eff (Emit (VisualLoaded
                                      (if vis_name v = [] then ''unknown'' else vis_name v)
                                      layer)) w4
                           in (Inr v, eff (ConsoleLog ''Visual loaded'') w5))"

text \<open>\<^verbatim>\<open>Array.prototype.indexOf\<close>: the first index of the element, \<open>-1\<close> when absent.\<close>

fun indexOf :: "'a list \<Rightarrow> 'a \<Rightarrow> int" where
  "indexOf [] x = -1"
| "indexOf (y # ys) x =
     (if y = x then 0 else (let i = indexOf ys x in if i < 0 then -1 else i + 1))"

text \<open>\<^verbatim>\<open>splice(index, 1)\<close>: the element at \<open>index\<close> is taken out.\<close>

definition splice1 :: "nat \<Rightarrow> 'a list \<Rightarrow> 'a list" where
  "splice1 i xs = take i xs @ drop (Suc i) xs"

definition removeVisual :: "visual \<Rightarrow> world \<Rightarrow> world" where
  "removeVisual v w =
     (let index = indexOf (visuals (ctl w)) v
      in if index > -1 then
           let w1 = w\<lparr>ctl := (ctl w)\<lparr>visuals := splice1 (nat index) (visuals (ctl w))\<rparr>\<rparr>;
               w2 = (case vis_canvas v of Some canvas \<Rightarrow> eff (CanvasRemove canvas) w1
                                         | None \<Rightarrow> w1)
           in if vis_has_dispose v then eff (VisualDispose (vis_ref v)) w2 else w2
         else w)"

subsection \<open>The render loop\<close>

text \<open>
  The closure \<^verbatim>\<open>render\<close>: read the audio data, render every visual, request the next
  frame and keep its handle. The host hands out handles counting from \<open>1\<close>. The
  song state (\<^verbatim>\<open>activeSong?.getState?.()\<close> or its default) and the audio data are
  arguments of the external \<^verbatim>\<open>visual.render\<close>; the trace keeps the call, not its
  arguments.
\<close>

definition render :: "env \<Rightarrow> world \<Rightarrow> (error + unit) \<times> world" where
  "render env w =
     (case getAudioData (audioChain (ctl w)) (readings env (now w)) of
        Inl e \<Rightarrow> (Inl e, w)
      | Inr audioData \<Rightarrow>
          let w1 = foldl (\<lambda>w v. eff (VisualRender (vis_ref v)) w) w (visuals (ctl w));
              h = Suc (next_handle w1);
              w2 = eff (RequestFrame h) (w1\<lparr>next_handle := h, frames := frames w1 @ [h]\<rparr>)
          in (Inr (), w2\<lparr>ctl := (ctl w2)\<lparr>animationId := Some h\<rparr>\<rparr>))"

definition startRenderLoop :: "env \<Rightarrow> world \<Rightarrow> (error + unit) \<times> world" where
  "startRenderLoop env w =
     (if truthy (animationId (ctl w)) then (Inr (), w) else render env w)"

definition stopRenderLoop :: "world \<Rightarrow> world" where
  "stopRenderLoop w =
     (case animationId (ctl w) of
        None \<Rightarrow> w
      | Some h \<Rightarrow>
          if truthy (Some h) then
            (eff (CancelFrame h) (w\<lparr>frames := removeAll h (frames w)\<rparr>))
              \<lparr>ctl := (ctl w)\<lparr>animationId := None\<rparr>\<rparr>
          else w)"

text \<open>
  The host runs an animation frame: the callbacks requested so far are taken off the
  list and run in order. Each of them is the \<open>render\<close> closure.
\<close>

definition frame :: "env \<Rightarrow> world \<Rightarrow> world" where
  "frame env w = foldl (\<lambda>w h. snd (render env w)) (w\<lparr>frames := []\<rparr>) (frames w)"

subsection \<open>Transport\<close>

definition play :: "env \<Rightarrow> world \<Rightarrow> (error + unit) \<times> world" where
  "play env w =
     (let w1 = eff ToneStart w;
          w2 = (case activeSong (ctl w1) of Some s \<Rightarrow> eff (SongPlay (song_ref s)) w1
                                           | None \<Rightarrow> w1);
          started = startRenderLoop env w2;
          w3 = snd started
      in case fst started of
           Inl e \<Rightarrow> (Inl e, w3)
         | Inr u \<Rightarrow> (Inr (), eff (Emit (PlayEv (activeDeck (ctl w3)))) w3))"

definition pause :: "world \<Rightarrow> world" where
  "pause w =
     (let w1 = (case activeSong (ctl w) of Some s \<Rightarrow> eff (SongPause (song_ref s)) w
                                          | None \<Rightarrow> w)
      in eff (Emit (PauseEv (activeDeck (ctl w1)))) w1)"

definition stop :: "world \<Rightarrow> world" where
  "stop w =
     (let w1 = (case activeSong (ctl w) of Some s \<Rightarrow> eff (SongStop (song_ref s)) w
                                          | None \<Rightarrow> w);
          w2 = stopRenderLoop w1
      in eff (Emit (StopEv (activeDeck (ctl w2)))) w2)"

text \<open>
  \<open>jumpToSection\<close>, \<open>muteTrack\<close>, \<open>unmuteTrack\<close>, \<open>setTempo\<close>:
  \<^verbatim>\<open>activeSong?.method?.(arg)\<close>.
\<close>

definition delegate :: "string \<Rightarrow> world \<Rightarrow> world" where
  "delegate method w =
     (case activeSong (ctl w) of
        None \<Rightarrow> w
      | Some s \<Rightarrow> if method \<in> set (song_optional s) then eff (SongCall (song_ref s) method) w
                  else w)"

subsection \<open>startCrossfade, switchDeck\<close>

text \<open>
  \<^verbatim>\<open>setTimeout(callback, delay)\<close>: the callback joins the queue, due \<open>delay\<close>
  milliseconds from now (a negative delay counts as \<open>0\<close>, as the HTML standard has it).
\<close>

definition setTimeout :: "string \<Rightarrow> real \<Rightarrow> world \<Rightarrow> world" where
  "setTimeout target delay w =
     eff (SetTimeout delay)
       (w\<lparr>timers := timers w @ [\<lparr>due = now w + max 0 delay, captured = target\<rparr>]\<rparr>)"

definition startCrossfade :: "real \<Rightarrow> world \<Rightarrow> (error + unit) \<times> world" where
  "startCrossfade duration w =
     (let targetDeck = (if activeDeck (ctl w) = ''A'' then ''B'' else ''A'');
          targetValue = (if activeDeck (ctl w) = ''A'' then 1 else 0);
          inactiveSong = (if activeDeck (ctl w) = ''A'' then deckB (ctl w) else deckA (ctl w))
      in case inactiveSong of
           None \<Rightarrow> (Inr (), eff (ConsoleWarn ''No song loaded in target deck'') w)
         | Some s \<Rightarrow>
             let w1 = eff (Emit (CrossfadeStart (activeDeck (ctl w)) targetDeck duration)) w;
                 w2 = eff (SongPlay (song_ref s)) w1
             in case setCrossfade (audioChain (ctl w2)) targetValue duration of
                  Inl e \<Rightarrow> (Inl e, w2)
                | Inr ac \<Rightarrow>
                    (Inr (), setTimeout targetDeck (duration * 1000)
                               (w2\<lparr>ctl := (ctl w2)\<lparr>audioChain := ac\<rparr>\<rparr>)))"

text \<open>
  The callback \<open>startCrossfade\<close> hands to \<^verbatim>\<open>setTimeout\<close>. \<open>targetDeck\<close> is the value
  its closure captured; \<^verbatim>\<open>this.activeDeck\<close> is read when it runs.
\<close>

definition completion :: "string \<Rightarrow> world \<Rightarrow> world" where
  "completion targetDeck w =
     (let w1 = (case activeSong (ctl w) of Some oldSong \<Rightarrow> eff (SongStop (song_ref oldSong)) w
                                          | None \<Rightarrow> w);
          w2 = w1\<lparr>ctl := (ctl w1)\<lparr>activeDeck := targetDeck\<rparr>\<rparr>
      in eff (Emit (CrossfadeComplete targetDeck)) w2)"

definition switchDeck :: "world \<Rightarrow> (error + unit) \<times> world" where
  "switchDeck w =
     (let targetValue = (if activeDeck (ctl w) = ''A'' then 1 else 0)
      in case setCrossfade (audioChain (ctl w)) targetValue 0 of
           Inl e \<Rightarrow> (Inl e, w)
         | Inr ac \<Rightarrow>
             let w1 = w\<lparr>ctl := (ctl w)\<lparr>audioChain := ac,
                          activeDeck := (if activeDeck (ctl w) = ''A'' then ''B'' else ''A'')\<rparr>\<rparr>
             in (Inr (), eff (Emit (DeckSwitch (activeDeck (ctl w1)))) w1))"

subsection \<open>dispose\<close>

definition dispose_visual :: "world \<Rightarrow> visual \<Rightarrow> world" where
  "dispose_visual w v =
     (let w1 = (case vis_canvas v of Some canvas \<Rightarrow> eff (CanvasRemove canvas) w | None \<Rightarrow> w)
      in if vis_has_dispose v then eff (VisualDispose (vis_ref v)) w1 else w1)"

definition dispose_deck :: "song option \<Rightarrow> world \<Rightarrow> world" where
  "dispose_deck d w = (case d of None \<Rightarrow> w | Some s \<Rightarrow> eff (SongDispose (song_ref s)) w)"

definition dispose :: "world \<Rightarrow> world" where
  "dispose w =
     (let w1 = stopRenderLoop w;
          w2 = foldl dispose_visual w1 (visuals (ctl w1));
          w3 = w2\<lparr>ctl := (ctl w2)\<lparr>visuals := []\<rparr>\<rparr>;
          w4 = dispose_deck (deckB (ctl w3)) (dispose_deck (deckA (ctl w3)) w3);
          w5 = w4\<lparr>ctl := (ctl w4)\<lparr>audioChain := chain_dispose (audioChain (ctl w4))\<rparr>\<rparr>
      in eff BusClear w5)"

subsection \<open>The host's timers\<close>

text \<open>The pending timer that fires next: the earliest due, the older one on a tie.\<close>

fun earliest :: "timer list \<Rightarrow> timer option" where
  "earliest [] = None"
| "earliest (t # ts) =
     (case earliest ts of
        None \<Rightarrow> Some t
      | Some u \<Rightarrow> if due u < due t then Some u else Some t)"

definition fire :: "timer \<Rightarrow> world \<Rightarrow> world" where
  "fire t w =
     completion (captured t) (w\<lparr>timers := remove1 t (timers w), now := max (now w) (due t)\<rparr>)"

text \<open>
  Time passes up to \<open>t\<close>: the timers due by then fire in order. A completion sets no
  timer, so at most \<open>length (timers w)\<close> of them fire, which is the fuel \<open>advance\<close>
  gives (\<open>advance_leaves_none_due\<close> below: none that is due is left).
\<close>

fun run_due :: "nat \<Rightarrow> real \<Rightarrow> world \<Rightarrow> world" where
  "run_due 0 t w = w"
| "run_due (Suc n) t w =
     (case earliest (timers w) of
        None \<Rightarrow> w
      | Some tm \<Rightarrow> if due tm \<le> t then run_due n t (fire tm w) else w)"

definition advance :: "real \<Rightarrow> world \<Rightarrow> world" where
  "advance t w = (let w' = run_due (length (timers w)) t w in w'\<lparr>now := max (now w') t\<rparr>)"

subsection \<open>Histories of calls on one controller\<close>

datatype op =
    Init nat
  | LoadSong string string
  | LoadVisual string int
  | RemoveVisual visual
  | Play
  | Pause
  | Stop
  | Delegate string
  | StartCrossfade real
  | SwitchDeck
  | StartRenderLoop
  | StopRenderLoop
  | Dispose
  | Frame
  | Advance real

text \<open>
  One step of a history: a method call (the caller catches what it throws; the state
  it leaves stays), an animation frame, or time passing.
\<close>

fun exec :: "env \<Rightarrow> world \<Rightarrow> op \<Rightarrow> world" where
  "exec env w (Init container) = snd (init container w)"
| "exec env w (LoadSong songPath deck) = snd (loadSong env songPath deck w)"
| "exec env w (LoadVisual visualPath layer) = snd (loadVisual env visualPath layer w)"
| "exec env w (RemoveVisual v) = removeVisual v w"
| "exec env w Play = snd (play env w)"
| "exec env w Pause = pause w"
| "exec env w Stop = stop w"
| "exec env w (Delegate method) = delegate method w"
| "exec env w (StartCrossfade duration) = snd (startCrossfade duration w)"
| "exec env w SwitchDeck = snd (switchDeck w)"
| "exec env w StartRenderLoop = snd (startRenderLoop env w)"
| "exec env w StopRenderLoop = stopRenderLoop w"
| "exec env w Dispose = dispose w"
| "exec env w Frame = frame env w"
| "exec env w (Advance t) = advance t w"

definition run :: "env \<Rightarrow> op list \<Rightarrow> world" where
  "run env ops = foldl (exec env) new_world ops"

subsection \<open>Invariants of the histories\<close>

text \<open>
  \<open>frames_ok\<close>: the handle is never \<open>0\<close>, and a requested frame callback, if there is
  one, is the only one and the one \<^verbatim>\<open>animationId\<close> names. \<open>visuals_ok\<close>: the loaded
  visuals are distinct objects, allocated earlier, each with its canvas.
  \<open>position_ok\<close>: the crossfader, once it exists, heads for \<open>0\<close> or \<open>1\<close>.
\<close>

definition frames_ok :: "world \<Rightarrow> bool" where
  "frames_ok w =
     (animationId (ctl w) \<noteq> Some 0
      \<and> (frames w = [] \<or> (\<exists>h. frames w = [h] \<and> animationId (ctl w) = Some h)))"

definition visuals_ok :: "world \<Rightarrow> bool" where
  "visuals_ok w =
     (distinct (map vis_ref (visuals (ctl w)))
      \<and> (\<forall>v \<in> set (visuals (ctl w)). vis_ref v < next_ref w \<and> vis_canvas v \<noteq> None))"

definition position_ok :: "world \<Rightarrow> bool" where
  "position_ok w =
     (crossfade_position (audioChain (ctl w)) = None
      \<or> crossfade_position (audioChain (ctl w)) = Some 0
      \<or> crossfade_position (audioChain (ctl w)) = Some 1)"

subsection \<open>Reading the trace\<close>

fun is_songLoaded :: "effect \<Rightarrow> bool" where
  "is_songLoaded (Emit (SongLoaded deck name)) = True"
| "is_songLoaded _ = False"

fun is_songDispose :: "effect \<Rightarrow> bool" where
  "is_songDispose (SongDispose r) = True"
| "is_songDispose _ = False"

text \<open>\<open>a\<close> occurs before the first \<open>b\<close>, and \<open>b\<close> occurs.\<close>

definition precedes :: "'a \<Rightarrow> 'a \<Rightarrow> 'a list \<Rightarrow> bool" where
  "precedes a b xs = (a \<in> set (takeWhile (\<lambda>x. x \<noteq> b) xs) \<and> b \<in> set xs)"

subsection \<open>The spec's words for the crossfade\<close>

text \<open>
  The fade parameter is in range when the value last assigned and the target of the ramp
  in force both lie in the closed interval from \<open>0\<close> to \<open>1\<close>; a monotonic ramp between
  two such positions passes through no other. A chain without crossfade node has no
  position.
\<close>

definition fade_in_range :: "fade_param \<Rightarrow> bool" where
  "fade_in_range p =
     (0 \<le> fade_value p \<and> fade_value p \<le> 1
      \<and> (case fade_ramp p of None \<Rightarrow> True
                             | Some (target, secs) \<Rightarrow> 0 \<le> target \<and> target \<le> 1))"

definition position_in_range :: "audio_chain \<Rightarrow> bool" where
  "position_in_range ac =
     (case map_option fade (crossfade ac) of None \<Rightarrow> True | Some p \<Rightarrow> fade_in_range p)"

text \<open>
  A crossfade is in flight while a completion is pending. \<open>0\<close> is fully deck A, \<open>1\<close>
  fully deck B: the active deck is right when the crossfader heads for its side. A
  single-flight guard would make the second call leave the timers and the controller
  as they are.
\<close>

definition fade_in_flight :: "world \<Rightarrow> bool" where
  "fade_in_flight w = (timers w \<noteq> [])"

definition other_deck :: "string \<Rightarrow> string" where
  "other_deck deck = (if deck = ''A'' then ''B'' else ''A'')"

definition deck_position :: "string \<Rightarrow> real" where
  "deck_position deck = (if deck = ''A'' then 0 else 1)"

definition activeDeck_matches_ramp :: "world \<Rightarrow> bool" where
  "activeDeck_matches_ramp w =
     (crossfade_position (audioChain (ctl w)) = Some (deck_position (activeDeck (ctl w))))"

definition single_flight_guarded :: "real \<Rightarrow> world \<Rightarrow> bool" where
  "single_flight_guarded d w =
     (timers (snd (startCrossfade d w)) = timers w \<and> ctl (snd (startCrossfade d w)) = ctl w)"

subsection \<open>Concrete plugins and histories\<close>

text \<open>
  An environment with two loadable songs (\<open>demo\<close>, \<open>other\<close>), one whose \<^verbatim>\<open>init()\<close>
  rejects (\<open>broken\<close>) and one visual (\<open>v1\<close>); every other path fails to import.
\<close>

definition example_readings :: tone_readings where
  "example_readings = \<lparr>fft_reading = [Num (-60), NegInfinity], waveform_reading = [Num (1/4), Num 0],
                        meter_reading = Num (-12)\<rparr>"

definition example_env :: env where
  "example_env =
     \<lparr>song_modules = (\<lambda>p.
        if p = ''demo'' \<or> p = ''other'' then
          Constructor \<lparr>sc_ctor_throws = False, sc_init_rejects = False, sc_name = p,
                       sc_optional = [''on'']\<rparr>
        else if p = ''broken'' then
          Constructor \<lparr>sc_ctor_throws = False, sc_init_rejects = True, sc_name = p,
                       sc_optional = []\<rparr>
        else ImportRejects),
      visual_modules = (\<lambda>p.
        if p = ''v1'' then
          Constructor \<lparr>vc_ctor_throws = False, vc_init_throws = False, vc_name = p,
                       vc_has_dispose = True\<rparr>
        else ImportRejects),
      readings = (\<lambda>t. example_readings)\<rparr>"

definition two_decks_world :: world where
  "two_decks_world =
     run example_env [Init 0, LoadSong ''demo'' ''A'', LoadSong ''other'' ''B'']"

definition one_fade_world :: world where
  "one_fade_world =
     run example_env [Init 0, LoadSong ''demo'' ''A'', LoadSong ''other'' ''B'',
                      StartCrossfade 10]"

definition overlap_world :: world where
  "overlap_world =
     run example_env [Init 0, LoadSong ''demo'' ''A'', LoadSong ''other'' ''B'',
                      StartCrossfade 10, SwitchDeck]"

definition one_visual_world :: world where
  "one_visual_world = run example_env [Init 0, LoadVisual ''v1'' 0]"

definition example_visual :: visual where
  "example_visual =
     \<lparr>vis_ref = 0, vis_name = ''v1'', vis_has_dispose = True, vis_canvas = Some 1,
      vis_layer = 0\<rparr>"

section \<open>Properties of the audio chain\<close>

lemmas setCrossfade_unfold = setCrossfade_def fade_assign_def fade_rampTo_def

lemma chain_exec_flag:
  "isInitialized (chain_exec ac op) = graph_live_after (isInitialized ac) op"
  by (cases op)
     (simp_all add: chain_init_def chain_dispose_def keep_on_error_def connectToDeck_def
        setCrossfade_unfold setMasterVolume_def split: option.splits sum.splits)

lemma chain_exec_nodes:
  assumes "isInitialized ac \<longrightarrow> analyser ac \<noteq> None \<and> waveformAnalyser ac \<noteq> None \<and> meter ac \<noteq> None"
  shows "isInitialized (chain_exec ac op) \<longrightarrow>
         analyser (chain_exec ac op) \<noteq> None \<and> waveformAnalyser (chain_exec ac op) \<noteq> None
         \<and> meter (chain_exec ac op) \<noteq> None"
  using assms
  by (cases op)
     (simp_all add: chain_init_def chain_dispose_def keep_on_error_def connectToDeck_def
        setCrossfade_unfold setMasterVolume_def split: option.splits sum.splits)

lemma chain_run_snoc: "chain_run (ops @ [op]) = chain_exec (chain_run ops) op"
  by (simp add: chain_run_def)

lemma chain_run_flag: "isInitialized (chain_run ops) = graph_live ops"
proof (induction ops rule: rev_induct)
  case Nil
  show ?case by (simp add: chain_run_def graph_live_def new_AudioChain_def)
next
  case (snoc op ops)
  have "graph_live (ops @ [op]) = graph_live_after (graph_live ops) op"
    by (simp add: graph_live_def)
  with snoc show ?case by (simp add: chain_run_snoc chain_exec_flag)
qed

lemma chain_run_nodes:
  "isInitialized (chain_run ops) \<longrightarrow>
   analyser (chain_run ops) \<noteq> None \<and> waveformAnalyser (chain_run ops) \<noteq> None
   \<and> meter (chain_run ops) \<noteq> None"
proof (induction ops rule: rev_induct)
  case Nil
  show ?case by (simp add: chain_run_def new_AudioChain_def)
next
  case (snoc op ops)
  then show ?case unfolding chain_run_snoc by (rule chain_exec_nodes)
qed

section \<open>Properties of the controller\<close>

subsection \<open>What each method leaves alone\<close>

lemma eff_fields [simp]:
  "ctl (eff e w) = ctl w" "now (eff e w) = now w" "timers (eff e w) = timers w"
  "frames (eff e w) = frames w" "next_handle (eff e w) = next_handle w"
  "next_ref (eff e w) = next_ref w" "trace (eff e w) = trace w @ [e]"
  by (simp_all add: eff_def)

lemma rethrow_fields [simp]:
  "fst (rethrow e w) = Inl e" "snd (rethrow e w) = eff (ConsoleError e) w"
  by (simp_all add: rethrow_def)

lemma foldl_render_effs:
  "foldl (\<lambda>w v. eff (VisualRender (vis_ref v)) w) w vs
     = w\<lparr>trace := trace w @ map (\<lambda>v. VisualRender (vis_ref v)) vs\<rparr>"
  by (induction vs arbitrary: w) (simp_all add: eff_def)

lemma foldl_dispose_visual_fields:
  "ctl (foldl dispose_visual w vs) = ctl w \<and> frames (foldl dispose_visual w vs) = frames w
   \<and> next_ref (foldl dispose_visual w vs) = next_ref w
   \<and> timers (foldl dispose_visual w vs) = timers w"
  by (induction vs arbitrary: w) (simp_all add: dispose_visual_def Let_def split: option.splits)

lemma completion_fields [simp]:
  "frames (completion d w) = frames w" "timers (completion d w) = timers w"
  "next_ref (completion d w) = next_ref w" "now (completion d w) = now w"
  "animationId (ctl (completion d w)) = animationId (ctl w)"
  "visuals (ctl (completion d w)) = visuals (ctl w)"
  "audioChain (ctl (completion d w)) = audioChain (ctl w)"
  "deckA (ctl (completion d w)) = deckA (ctl w)"
  "deckB (ctl (completion d w)) = deckB (ctl w)"
  "activeDeck (ctl (completion d w)) = d"
  by (simp_all add: completion_def Let_def split: option.splits)

lemma run_due_fields:
  "frames (run_due n t w) = frames w \<and> next_ref (run_due n t w) = next_ref w
   \<and> animationId (ctl (run_due n t w)) = animationId (ctl w)
   \<and> visuals (ctl (run_due n t w)) = visuals (ctl w)
   \<and> audioChain (ctl (run_due n t w)) = audioChain (ctl w)"
  by (induction n arbitrary: w) (simp_all add: fire_def split: option.splits)

lemma advance_fields:
  "frames (advance t w) = frames w \<and> next_ref (advance t w) = next_ref w
   \<and> animationId (ctl (advance t w)) = animationId (ctl w)
   \<and> visuals (ctl (advance t w)) = visuals (ctl w)
   \<and> audioChain (ctl (advance t w)) = audioChain (ctl w)"
  using run_due_fields [of "length (timers w)" t w] by (simp add: advance_def Let_def)

lemmas ctl_defs =
  init_def loadSong_def install_song_def store_song_def dispose_old_def subscribe_def
  loadVisual_def removeVisual_def render_def startRenderLoop_def stopRenderLoop_def
  play_def pause_def stop_def delegate_def setTimeout_def startCrossfade_def switchDeck_def
  dispose_def dispose_deck_def

lemma render_frames_ok: "frames w = [] \<Longrightarrow> animationId (ctl w) \<noteq> Some 0 \<Longrightarrow> frames_ok (snd (render env w))"
  by (simp add: render_def frames_ok_def foldl_render_effs Let_def split: sum.splits)

lemma exec_frames_ok: "frames_ok w \<Longrightarrow> frames_ok (exec env w op)"
proof (cases op)
  case Frame
  assume ok: "frames_ok w"
  show ?thesis
  proof (cases "frames w")
    case Nil
    with ok Frame show ?thesis by (simp add: frame_def frames_ok_def)
  next
    case (Cons h hs)
    with ok have "frames w = [h]" by (auto simp: frames_ok_def)
    moreover have "frames_ok (snd (render env (w\<lparr>frames := []\<rparr>)))"
      using ok by (intro render_frames_ok) (simp_all add: frames_ok_def)
    ultimately show ?thesis using Frame by (simp add: frame_def)
  qed
next
  case (Advance t)
  assume "frames_ok w"
  with Advance advance_fields [of t w] show ?thesis by (simp add: frames_ok_def)
next
  case Dispose
  assume "frames_ok w"
  with Dispose show ?thesis
    by (auto simp add: frames_ok_def dispose_def dispose_deck_def stopRenderLoop_def Let_def foldl_dispose_visual_fields split: option.splits)
qed (auto simp add: frames_ok_def ctl_defs foldl_render_effs Let_def
       split: option.splits sum.splits resolution.splits if_splits prod.splits)


lemma indexOf_range: "- 1 \<le> indexOf xs x"
  by (induction xs) (simp_all add: Let_def)

lemma indexOf_found: "(indexOf xs x > - 1) = (x \<in> set xs)"
  using indexOf_range [of _ x] by (induction xs) (auto simp add: Let_def)

lemma indexOf_absent: "x \<notin> set xs \<Longrightarrow> indexOf xs x = - 1"
  using indexOf_found [of xs x] indexOf_range [of xs x] by linarith

lemma splice1_indexOf: "x \<in> set xs \<Longrightarrow> splice1 (nat (indexOf xs x)) xs = remove1 x xs"
proof (induction xs)
  case Nil
  then show ?case by simp
next
  case (Cons y ys)
  show ?case
  proof (cases "y = x")
    case True
    then show ?thesis by (simp add: splice1_def)
  next
    case False
    with Cons.prems have mem: "x \<in> set ys" by simp
    then have pos: "0 \<le> indexOf ys x" using indexOf_found [of ys x] by simp
    then have "nat (indexOf ys x + 1) = Suc (nat (indexOf ys x))" by simp
    with False pos Cons.IH [OF mem] show ?thesis
      by (simp add: splice1_def Let_def)
  qed
qed

lemma removeVisual_absent: "v \<notin> set (visuals (ctl w)) \<Longrightarrow> removeVisual v w = w"
  by (simp add: removeVisual_def indexOf_absent)

lemma removeVisual_present:
  "v \<in> set (visuals (ctl w)) \<Longrightarrow>
   removeVisual v w =
     w\<lparr>ctl := (ctl w)\<lparr>visuals := remove1 v (visuals (ctl w))\<rparr>,
       trace := trace w @ (case vis_canvas v of Some c \<Rightarrow> [CanvasRemove c] | None \<Rightarrow> [])
                  @ (if vis_has_dispose v then [VisualDispose (vis_ref v)] else [])\<rparr>"
  using indexOf_found [of "visuals (ctl w)" v]
  by (simp add: removeVisual_def splice1_indexOf eff_def Let_def split: option.splits)

lemma distinct_map_remove1: "distinct (map f xs) \<Longrightarrow> distinct (map f (remove1 x xs))"
proof (induction xs)
  case Nil
  then show ?case by simp
next
  case (Cons y ys)
  have "set (remove1 x ys) \<subseteq> set ys" by (rule set_remove1_subset)
  with Cons show ?case by auto
qed

lemma removeVisual_visuals_ok: "visuals_ok w \<Longrightarrow> visuals_ok (removeVisual v w)"
proof (cases "v \<in> set (visuals (ctl w))")
  case False
  assume "visuals_ok w"
  with False show ?thesis by (simp add: removeVisual_absent)
next
  case True
  assume ok: "visuals_ok w"
  have sub: "set (remove1 v (visuals (ctl w))) \<subseteq> set (visuals (ctl w))"
    by (rule set_remove1_subset)
  from ok have "distinct (map vis_ref (remove1 v (visuals (ctl w))))"
    by (simp add: visuals_ok_def distinct_map_remove1)
  with ok sub True show ?thesis
    by (auto simp add: visuals_ok_def removeVisual_present)
qed


lemma install_song_fields:
  "frames (snd (install_song deck s w)) = frames w
   \<and> timers (snd (install_song deck s w)) = timers w
   \<and> next_ref (snd (install_song deck s w)) = next_ref w
   \<and> animationId (ctl (snd (install_song deck s w))) = animationId (ctl w)
   \<and> visuals (ctl (snd (install_song deck s w))) = visuals (ctl w)
   \<and> activeDeck (ctl (snd (install_song deck s w))) = activeDeck (ctl w)
   \<and> crossfade_position (audioChain (ctl (snd (install_song deck s w))))
       = crossfade_position (audioChain (ctl w))
   \<and> map_option fade (crossfade (audioChain (ctl (snd (install_song deck s w)))))
       = map_option fade (crossfade (audioChain (ctl w)))"
  by (simp add: install_song_def store_song_def dispose_old_def subscribe_def connectToDeck_def
        crossfade_position_def Let_def split: option.splits)

lemma loadSong_fields:
  "frames (snd (loadSong env p deck w)) = frames w
   \<and> timers (snd (loadSong env p deck w)) = timers w
   \<and> next_ref w \<le> next_ref (snd (loadSong env p deck w))
   \<and> animationId (ctl (snd (loadSong env p deck w))) = animationId (ctl w)
   \<and> visuals (ctl (snd (loadSong env p deck w))) = visuals (ctl w)
   \<and> activeDeck (ctl (snd (loadSong env p deck w))) = activeDeck (ctl w)
   \<and> crossfade_position (audioChain (ctl (snd (loadSong env p deck w))))
       = crossfade_position (audioChain (ctl w))
   \<and> map_option fade (crossfade (audioChain (ctl (snd (loadSong env p deck w)))))
       = map_option fade (crossfade (audioChain (ctl w)))"
  by (simp add: loadSong_def install_song_fields Let_def split: resolution.splits)

lemma foldl_render_fields:
  "visuals (ctl (foldl (\<lambda>w h. snd (render env w)) w hs)) = visuals (ctl w)
   \<and> next_ref (foldl (\<lambda>w h. snd (render env w)) w hs) = next_ref w
   \<and> audioChain (ctl (foldl (\<lambda>w h. snd (render env w)) w hs)) = audioChain (ctl w)"
  by (induction hs arbitrary: w)
     (simp_all add: render_def foldl_render_effs Let_def split: sum.splits)

lemma render_fields:
  "visuals (ctl (snd (render env w))) = visuals (ctl w)
   \<and> next_ref (snd (render env w)) = next_ref w
   \<and> audioChain (ctl (snd (render env w))) = audioChain (ctl w)"
  by (simp add: render_def foldl_render_effs Let_def split: sum.splits)

lemma stopRenderLoop_fields:
  "visuals (ctl (stopRenderLoop w)) = visuals (ctl w)
   \<and> next_ref (stopRenderLoop w) = next_ref w
   \<and> audioChain (ctl (stopRenderLoop w)) = audioChain (ctl w)
   \<and> deckA (ctl (stopRenderLoop w)) = deckA (ctl w)
   \<and> deckB (ctl (stopRenderLoop w)) = deckB (ctl w)"
  by (simp add: stopRenderLoop_def split: option.splits)

lemma exec_keeps_visuals:
  assumes "\<And>p l. op \<noteq> LoadVisual p l" "\<And>v. op \<noteq> RemoveVisual v" "op \<noteq> Dispose"
  shows "visuals (ctl (exec env w op)) = visuals (ctl w) \<and> next_ref w \<le> next_ref (exec env w op)"
proof (cases op)
  case (LoadSong p d)
  with loadSong_fields [of env p d w] show ?thesis by simp
next
  case Frame
  with foldl_render_fields [of env "w\<lparr>frames := []\<rparr>" "frames w"] show ?thesis
    by (simp add: frame_def)
next
  case (Advance t)
  with advance_fields [of t w] show ?thesis by simp
next
  case Play
  then show ?thesis
    by (simp add: play_def startRenderLoop_def render_fields Let_def
          split: option.splits sum.splits)
next
  case Stop
  then show ?thesis by (simp add: stop_def stopRenderLoop_fields Let_def split: option.splits)
next
  case StartRenderLoop
  then show ?thesis by (simp add: startRenderLoop_def render_fields)
next
  case StopRenderLoop
  then show ?thesis by (simp add: stopRenderLoop_fields)
next
  case (Init c)
  then show ?thesis by (simp add: init_def Let_def split: sum.splits)
next
  case Pause
  then show ?thesis by (simp add: pause_def Let_def split: option.splits)
next
  case (Delegate m)
  then show ?thesis by (simp add: delegate_def split: option.splits)
next
  case (StartCrossfade d)
  then show ?thesis
    by (simp add: startCrossfade_def setTimeout_def Let_def split: option.splits sum.splits)
next
  case SwitchDeck
  then show ?thesis by (simp add: switchDeck_def Let_def split: sum.splits)
qed (use assms in simp_all)


lemma loadVisual_visuals_ok: "visuals_ok w \<Longrightarrow> visuals_ok (snd (loadVisual env p l w))"
  by (fastforce simp add: visuals_ok_def loadVisual_def Let_def
        split: option.splits resolution.splits)

lemma dispose_visuals_ok: "visuals_ok (dispose w)"
  by (simp add: visuals_ok_def dispose_def dispose_deck_def Let_def split: option.splits)

lemma exec_visuals_ok: "visuals_ok w \<Longrightarrow> visuals_ok (exec env w op)"
proof -
  assume ok: "visuals_ok w"
  consider (load) p l where "op = LoadVisual p l" | (remove) v where "op = RemoveVisual v"
    | (dispose) "op = Dispose"
    | (other) "\<And>p l. op \<noteq> LoadVisual p l" "\<And>v. op \<noteq> RemoveVisual v" "op \<noteq> Dispose"
    by blast
  then show ?thesis
  proof cases
    case load
    with ok show ?thesis by (simp add: loadVisual_visuals_ok)
  next
    case remove
    with ok show ?thesis by (simp add: removeVisual_visuals_ok)
  next
    case dispose
    then show ?thesis by (simp add: dispose_visuals_ok)
  next
    case other
    from exec_keeps_visuals [OF other, of env w] ok show ?thesis
      by (auto simp add: visuals_ok_def)
  qed
qed

lemma setCrossfade_position:
  "setCrossfade ac v t = Inr ac' \<Longrightarrow> crossfade_position ac' = Some v"
  by (auto simp add: setCrossfade_unfold crossfade_position_def
        split: option.splits if_splits sum.splits)

lemma chain_dispose_position: "crossfade_position (chain_dispose ac) = crossfade_position ac"
  by (cases "crossfade ac")
     (simp_all add: chain_dispose_def crossfade_position_def split: option.splits)

lemma startCrossfade_position_ok: "position_ok w \<Longrightarrow> position_ok (snd (startCrossfade d w))"
  by (auto simp add: position_ok_def startCrossfade_def setTimeout_def Let_def
        split: option.splits sum.splits dest!: setCrossfade_position)

lemma switchDeck_position_ok: "position_ok w \<Longrightarrow> position_ok (snd (switchDeck w))"
  by (auto simp add: position_ok_def switchDeck_def Let_def
        split: sum.splits dest!: setCrossfade_position)

lemma exec_position_ok: "position_ok w \<Longrightarrow> position_ok (exec env w op)"
proof (cases op)
  case (Init c)
  then show ?thesis
    by (simp add: init_def position_ok_def setCrossfade_unfold chain_init_def
          crossfade_position_def Let_def)
next
  case (LoadSong p d)
  assume "position_ok w"
  with LoadSong loadSong_fields [of env p d w] show ?thesis by (simp add: position_ok_def)
next
  case (LoadVisual p l)
  assume "position_ok w"
  with LoadVisual show ?thesis
    by (simp add: position_ok_def loadVisual_def Let_def split: option.splits resolution.splits)
next
  case (RemoveVisual v)
  assume "position_ok w"
  with RemoveVisual show ?thesis
    by (cases "v \<in> set (visuals (ctl w))")
       (simp_all add: removeVisual_absent removeVisual_present position_ok_def)
next
  case Play
  assume "position_ok w"
  with Play show ?thesis
    by (simp add: position_ok_def play_def startRenderLoop_def render_fields Let_def
          split: option.splits sum.splits)
next
  case Pause
  assume "position_ok w"
  with Pause show ?thesis by (simp add: position_ok_def pause_def Let_def split: option.splits)
next
  case Stop
  assume "position_ok w"
  with Stop show ?thesis
    by (simp add: position_ok_def stop_def stopRenderLoop_fields Let_def split: option.splits)
next
  case (Delegate m)
  assume "position_ok w"
  with Delegate show ?thesis by (simp add: position_ok_def delegate_def split: option.splits)
next
  case (StartCrossfade d)
  assume "position_ok w"
  with StartCrossfade show ?thesis by (simp add: startCrossfade_position_ok)
next
  case SwitchDeck
  assume "position_ok w"
  with SwitchDeck show ?thesis by (simp add: switchDeck_position_ok)
next
  case StartRenderLoop
  assume "position_ok w"
  with StartRenderLoop show ?thesis
    by (simp add: position_ok_def startRenderLoop_def render_fields)
next
  case StopRenderLoop
  assume "position_ok w"
  with StopRenderLoop show ?thesis by (simp add: position_ok_def stopRenderLoop_fields)
next
  case Dispose
  assume "position_ok w"
  with Dispose show ?thesis
    by (simp add: position_ok_def dispose_def dispose_deck_def chain_dispose_position
          stopRenderLoop_fields foldl_dispose_visual_fields Let_def split: option.splits)
next
  case Frame
  assume "position_ok w"
  with Frame foldl_render_fields [of env "w\<lparr>frames := []\<rparr>" "frames w"] show ?thesis
    by (simp add: frame_def position_ok_def)
next
  case (Advance t)
  assume "position_ok w"
  with Advance advance_fields [of t w] show ?thesis by (simp add: position_ok_def)
qed

lemma run_snoc: "run env (ops @ [op]) = exec env (run env ops) op"
  by (simp add: run_def)

lemma run_invariants: "frames_ok (run env ops) \<and> visuals_ok (run env ops) \<and> position_ok (run env ops)"
proof (induction ops rule: rev_induct)
  case Nil
  show ?case
    by (simp add: run_def new_world_def new_DJController_def new_AudioChain_def frames_ok_def
          visuals_ok_def position_ok_def crossfade_position_def)
next
  case (snoc op ops)
  then show ?case
    by (simp add: run_snoc exec_frames_ok exec_visuals_ok exec_position_ok)
qed

subsection \<open>Traces, timers and concrete histories\<close>

lemma new_effects_append: "trace w' = trace w @ es \<Longrightarrow> new_effects w w' = es"
  by (simp add: new_effects_def)

lemma setCrossfade_in_range:
  "position_in_range ac \<Longrightarrow> setCrossfade ac v t = Inr ac' \<Longrightarrow> position_in_range ac'"
  by (auto simp add: setCrossfade_unfold position_in_range_def fade_in_range_def
        split: option.splits if_splits sum.splits)

lemma chain_exec_in_range: "position_in_range ac \<Longrightarrow> position_in_range (chain_exec ac op)"
proof (cases op)
  case ChainInit
  then show ?thesis by (simp add: chain_init_def position_in_range_def fade_in_range_def)
next
  case ChainDispose
  assume "position_in_range ac"
  with ChainDispose show ?thesis
    by (cases "crossfade ac") (simp_all add: chain_dispose_def position_in_range_def)
next
  case (ChainConnect out deck)
  assume "position_in_range ac"
  with ChainConnect show ?thesis
    by (cases "crossfade ac")
       (simp_all add: connectToDeck_def keep_on_error_def position_in_range_def)
next
  case (ChainSetCrossfade v t)
  assume ok: "position_in_range ac"
  show ?thesis
  proof (cases "setCrossfade ac v t")
    case (Inl e)
    with ok ChainSetCrossfade show ?thesis by (simp add: keep_on_error_def)
  next
    case (Inr ac')
    from setCrossfade_in_range [OF ok Inr] ChainSetCrossfade Inr show ?thesis
      by (simp add: keep_on_error_def)
  qed
next
  case (ChainSetMasterVolume db)
  assume "position_in_range ac"
  with ChainSetMasterVolume show ?thesis
    by (cases "master ac")
       (simp_all add: setMasterVolume_def keep_on_error_def position_in_range_def)
qed

lemma chain_run_in_range: "position_in_range (chain_run ops)"
proof (induction ops rule: rev_induct)
  case Nil
  show ?case by (simp add: chain_run_def new_AudioChain_def position_in_range_def)
next
  case (snoc op ops)
  then show ?case by (simp add: chain_run_snoc chain_exec_in_range)
qed

lemma same_fade_in_range:
  "map_option fade (crossfade ac') = map_option fade (crossfade ac) \<Longrightarrow>
   position_in_range ac \<Longrightarrow> position_in_range ac'"
  by (simp add: position_in_range_def)

lemma startCrossfade_in_range:
  "position_in_range (audioChain (ctl w)) \<Longrightarrow>
   position_in_range (audioChain (ctl (snd (startCrossfade d w))))"
  by (auto simp add: startCrossfade_def setTimeout_def Let_def
        split: option.splits sum.splits dest: setCrossfade_in_range)

lemma switchDeck_in_range:
  "position_in_range (audioChain (ctl w)) \<Longrightarrow>
   position_in_range (audioChain (ctl (snd (switchDeck w))))"
  by (auto simp add: switchDeck_def Let_def split: sum.splits dest: setCrossfade_in_range)

lemma exec_in_range:
  assumes ok: "position_in_range (audioChain (ctl w))"
  shows "position_in_range (audioChain (ctl (exec env w op)))"
proof (cases op)
  case (Init c)
  then show ?thesis
    by (simp add: init_def setCrossfade_unfold chain_init_def position_in_range_def
          fade_in_range_def Let_def)
next
  case (LoadSong p d)
  with loadSong_fields [of env p d w] ok show ?thesis
    by (simp add: same_fade_in_range)
next
  case (LoadVisual p l)
  with ok show ?thesis
    by (simp add: loadVisual_def Let_def split: option.splits resolution.splits)
next
  case (RemoveVisual v)
  with ok show ?thesis
    by (cases "v \<in> set (visuals (ctl w))")
       (simp_all add: removeVisual_absent removeVisual_present)
next
  case Play
  with ok show ?thesis
    by (simp add: play_def startRenderLoop_def render_fields Let_def
          split: option.splits sum.splits)
next
  case Pause
  with ok show ?thesis by (simp add: pause_def Let_def split: option.splits)
next
  case Stop
  with ok show ?thesis
    by (simp add: stop_def stopRenderLoop_fields Let_def split: option.splits)
next
  case (Delegate m)
  with ok show ?thesis by (simp add: delegate_def split: option.splits)
next
  case (StartCrossfade d)
  with ok show ?thesis by (simp add: startCrossfade_in_range)
next
  case SwitchDeck
  with ok show ?thesis by (simp add: switchDeck_in_range)
next
  case StartRenderLoop
  with ok show ?thesis by (simp add: startRenderLoop_def render_fields)
next
  case StopRenderLoop
  with ok show ?thesis by (simp add: stopRenderLoop_fields)
next
  case Dispose
  have "position_in_range (chain_dispose (audioChain (ctl w)))"
    using ok by (cases "crossfade (audioChain (ctl w))")
      (simp_all add: chain_dispose_def position_in_range_def)
  with Dispose show ?thesis
    by (simp add: dispose_def dispose_deck_def stopRenderLoop_fields
          foldl_dispose_visual_fields Let_def split: option.splits)
next
  case Frame
  with ok foldl_render_fields [of env "w\<lparr>frames := []\<rparr>" "frames w"] show ?thesis
    by (simp add: frame_def)
next
  case (Advance t)
  with ok advance_fields [of t w] show ?thesis by simp
qed

lemma run_in_range: "position_in_range (audioChain (ctl (run env ops)))"
proof (induction ops rule: rev_induct)
  case Nil
  show ?case
    by (simp add: run_def new_world_def new_DJController_def new_AudioChain_def
          position_in_range_def)
next
  case (snoc op ops)
  then show ?case by (simp add: run_snoc exec_in_range)
qed

lemma setCrossfade_accepts:
  assumes "crossfade ac = Some cf" and "0 \<le> v" and "v \<le> 1"
  shows "setCrossfade ac v t =
           Inr (ac\<lparr>crossfade := Some (cf\<lparr>fade :=
                  (if 0 < t then (fade cf)\<lparr>fade_ramp := Some (v, t)\<rparr>
                   else \<lparr>fade_value = v, fade_ramp = None\<rparr>)\<rparr>)\<rparr>)"
  using assms by (simp add: setCrossfade_unfold)

lemma setCrossfade_refuses:
  "crossfade ac \<noteq> None \<Longrightarrow> v < 0 \<or> 1 < v \<Longrightarrow> setCrossfade ac v t = Inl RangeError"
  by (auto simp add: setCrossfade_unfold)

lemma setCrossfade_ok:
  "crossfade ac \<noteq> None \<Longrightarrow> 0 \<le> v \<Longrightarrow> v \<le> 1 \<Longrightarrow> \<exists>ac'. setCrossfade ac v t = Inr ac'"
  by (cases "crossfade ac") (simp_all add: setCrossfade_unfold)

lemma loadSong_ok_cases:
  assumes "loadSong env songPath deck w = (Inr new, w')"
  obtains k ac where "song_modules env songPath = Constructor k"
    "new = \<lparr>song_ref = next_ref w, song_name = sc_name k, song_optional = sc_optional k\<rparr>"
    "install_song deck new
       (eff (SongInit (next_ref w))
          ((eff (ConsoleLog ''Loading song'') w)\<lparr>next_ref := Suc (next_ref w)\<rparr>)) = (Inr new, w')"
proof (cases "song_modules env songPath")
  case ImportRejects
  with assms show ?thesis by (simp add: loadSong_def rethrow_def Let_def)
next
  case NotConstructor
  with assms show ?thesis by (simp add: loadSong_def rethrow_def Let_def)
next
  case (Constructor k)
  with assms have a: "\<not> sc_ctor_throws k" "\<not> sc_init_rejects k"
    by (auto simp add: loadSong_def rethrow_def Let_def split: if_splits)
  define s where "s = \<lparr>song_ref = next_ref w, song_name = sc_name k, song_optional = sc_optional k\<rparr>"
  from assms Constructor a
  have i: "install_song deck s
       (eff (SongInit (next_ref w))
          ((eff (ConsoleLog ''Loading song'') w)\<lparr>next_ref := Suc (next_ref w)\<rparr>)) = (Inr new, w')"
    by (simp add: loadSong_def Let_def s_def)
  then have "new = s"
    by (auto simp add: install_song_def rethrow_def Let_def split: sum.splits)
  with i Constructor s_def that show ?thesis by blast
qed

lemma install_song_ok:
  assumes "install_song deck s w = (Inr new, w')"
  shows "new_effects w w' =
           (if deck = ''A'' then (case deckA (ctl w) of Some old \<Rightarrow> [SongDispose (song_ref old)] | None \<Rightarrow> [])
            else if deck = ''B'' then (case deckB (ctl w) of Some old \<Rightarrow> [SongDispose (song_ref old)] | None \<Rightarrow> [])
            else [])
           @ [DeckAssign deck (song_ref s)]
           @ (if ''on'' \<in> set (song_optional s)
              then [SongOn (song_ref s) ''sectionChange'', SongOn (song_ref s) ''bar''] else [])
           @ [Emit (SongLoaded deck (if song_name s = [] then ''unknown'' else song_name s)),
              ConsoleLog ''Song loaded'']"
    and "deck_slot deck (ctl w') = Some s"
    and "crossfade (audioChain (ctl w)) \<noteq> None"
  using assms
  by (auto simp add: install_song_def store_song_def dispose_old_def subscribe_def
        connectToDeck_def rethrow_def new_effects_def deck_slot_def Let_def
        split: sum.splits option.splits if_splits)

lemma loadSong_ok_has_crossfade:
  assumes "loadSong env songPath deck w = (Inr new, w')"
  shows "crossfade (audioChain (ctl w')) \<noteq> None"
proof -
  from assms obtain w1 where inst: "install_song deck new w1 = (Inr new, w')"
    by (rule loadSong_ok_cases)
  then show ?thesis
    by (auto simp add: install_song_def store_song_def dispose_old_def subscribe_def
          connectToDeck_def rethrow_def Let_def split: sum.splits option.splits if_splits)
qed

lemma exec_keeps_crossfade:
  assumes "crossfade (audioChain (ctl w)) \<noteq> None"
  shows "crossfade (audioChain (ctl (exec env w op))) \<noteq> None"
proof -
  have same: "audioChain (ctl w') = audioChain (ctl w) \<Longrightarrow>
      crossfade (audioChain (ctl w')) \<noteq> None" for w'
    using assms by simp
  have pos: "crossfade_position (audioChain (ctl w)) \<noteq> None"
    using assms by (simp add: crossfade_position_def)
  have from_pos: "crossfade_position (audioChain (ctl w')) \<noteq> None \<Longrightarrow>
      crossfade (audioChain (ctl w')) \<noteq> None" for w'
    by (auto simp add: crossfade_position_def)
  show ?thesis
  proof (cases op)
    case (Init c)
    then show ?thesis by (simp add: init_def setCrossfade_unfold chain_init_def Let_def)
  next
    case (LoadSong p d)
    with loadSong_fields [of env p d w] pos show ?thesis by (simp add: from_pos)
  next
    case (LoadVisual p l)
    with assms show ?thesis
      by (simp add: loadVisual_def Let_def split: option.splits resolution.splits)
  next
    case (RemoveVisual v)
    with assms show ?thesis
      by (cases "v \<in> set (visuals (ctl w))")
         (simp_all add: removeVisual_absent removeVisual_present)
  next
    case Play
    with assms show ?thesis
      by (simp add: play_def startRenderLoop_def render_fields Let_def
            split: option.splits sum.splits)
  next
    case Pause
    with assms show ?thesis by (simp add: pause_def Let_def split: option.splits)
  next
    case Stop
    with assms show ?thesis
      by (simp add: stop_def stopRenderLoop_fields Let_def split: option.splits)
  next
    case (Delegate m)
    with assms show ?thesis by (simp add: delegate_def split: option.splits)
  next
    case (StartCrossfade d)
    with assms show ?thesis
      by (auto simp add: startCrossfade_def setTimeout_def setCrossfade_unfold Let_def
            split: option.splits)
  next
    case SwitchDeck
    with assms show ?thesis
      by (auto simp add: switchDeck_def setCrossfade_unfold Let_def split: option.splits)
  next
    case StartRenderLoop
    with assms show ?thesis by (simp add: startRenderLoop_def render_fields)
  next
    case StopRenderLoop
    with assms show ?thesis by (simp add: stopRenderLoop_fields)
  next
    case Dispose
    with assms show ?thesis
      by (auto simp add: dispose_def dispose_deck_def chain_dispose_def
            stopRenderLoop_fields foldl_dispose_visual_fields Let_def split: option.splits)
  next
    case Frame
    with assms foldl_render_fields [of env "w\<lparr>frames := []\<rparr>" "frames w"] show ?thesis
      by (simp add: frame_def)
  next
    case (Advance t)
    with assms advance_fields [of t w] show ?thesis by simp
  qed
qed

lemma earliest_None: "(earliest ts = None) = (ts = [])"
  by (induction ts) (simp_all split: option.splits)

lemma earliest_mem: "earliest ts = Some u \<Longrightarrow> u \<in> set ts \<and> (\<forall>x \<in> set ts. due u \<le> due x)"
proof (induction ts arbitrary: u)
  case Nil
  then show ?case by simp
next
  case (Cons t ts)
  show ?case
  proof (cases "earliest ts")
    case None
    then have "ts = []" by (simp add: earliest_None)
    with Cons.prems show ?thesis by simp
  next
    case (Some v)
    from Cons.IH [OF Some] have v: "v \<in> set ts" "\<forall>x \<in> set ts. due v \<le> due x" by simp_all
    from Cons.prems Some have "u = (if due v < due t then v else t)"
      by (simp split: if_splits)
    with v show ?thesis by (auto split: if_splits)
  qed
qed

lemma fire_timers [simp]: "timers (fire tm w) = remove1 tm (timers w)"
  by (simp add: fire_def)

lemma run_due_none_left:
  "length (timers w) \<le> n \<Longrightarrow> \<forall>tm \<in> set (timers (run_due n t w)). t < due tm"
proof (induction n arbitrary: w)
  case 0
  then show ?case by simp
next
  case (Suc n)
  show ?case
  proof (cases "earliest (timers w)")
    case None
    then show ?thesis by (simp add: earliest_None)
  next
    case (Some u)
    from earliest_mem [OF Some] have u: "u \<in> set (timers w)" "\<forall>x \<in> set (timers w). due u \<le> due x"
      by simp_all
    show ?thesis
    proof (cases "due u \<le> t")
      case True
      from u(1) Suc.prems have "length (timers (fire u w)) \<le> n"
        by (simp add: length_remove1)
      from Suc.IH [OF this] Some True show ?thesis by simp
    next
      case False
      with u(2) Some show ?thesis by (auto simp add: not_le)
    qed
  qed
qed

lemma advance_leaves_none_due: "\<forall>tm \<in> set (timers (advance t w)). t < due tm"
  using run_due_none_left [of w "length (timers w)" t] by (simp add: advance_def Let_def)

lemma run_due_empty: "timers w = [] \<Longrightarrow> run_due n t w = w"
  by (cases n) simp_all

lemma run_due_same_target:
  assumes "\<forall>tm \<in> set (timers w). captured tm = c \<and> due tm \<le> t"
    and "timers w \<noteq> []" and "length (timers w) \<le> n"
  shows "timers (run_due n t w) = [] \<and> activeDeck (ctl (run_due n t w)) = c"
  using assms
proof (induction n arbitrary: w)
  case 0
  then show ?case by simp
next
  case (Suc n)
  from Suc.prems(2) obtain u where e: "earliest (timers w) = Some u"
    using earliest_None [of "timers w"] by (cases "earliest (timers w)") auto
  from earliest_mem [OF e] have mem: "u \<in> set (timers w)" by simp
  with Suc.prems(1) have u: "captured u = c" "due u \<le> t" by auto
  have step: "run_due (Suc n) t w = run_due n t (fire u w)" using e u by simp
  have act: "activeDeck (ctl (fire u w)) = c" using u by (simp add: fire_def)
  show ?case
  proof (cases "timers (fire u w) = []")
    case True
    with act step show ?thesis by (simp add: run_due_empty)
  next
    case False
    have sub: "set (remove1 u (timers w)) \<subseteq> set (timers w)" by (rule set_remove1_subset)
    with Suc.prems(1) have a: "\<forall>tm \<in> set (timers (fire u w)). captured tm = c \<and> due tm \<le> t"
      by auto
    from mem Suc.prems(3) have l: "length (timers (fire u w)) \<le> n"
      by (simp add: length_remove1)
    from Suc.IH [OF a False l] step show ?thesis by simp
  qed
qed

lemma stopRenderLoop_clears:
  "frames_ok w \<Longrightarrow> frames (stopRenderLoop w) = [] \<and> animationId (ctl (stopRenderLoop w)) = None"
  by (auto simp add: frames_ok_def stopRenderLoop_def split: option.splits)

lemma frame_idle: "frames w = [] \<Longrightarrow> frame env w = w"
  by (simp add: frame_def)

lemmas run_defs =
  run_def new_world_def new_DJController_def new_AudioChain_def chain_init_def
  setCrossfade_unfold connectToDeck_def getAudioData_def eff_def rethrow_def fire_def
  advance_def completion_def activeSong_def frame_def dispose_visual_def Let_def

lemmas eval_defs =
  run_defs init_def loadSong_def install_song_def store_song_def dispose_old_def
  subscribe_def example_env_def startCrossfade_def setTimeout_def switchDeck_def
  loadVisual_def

lemma two_decks_world_eq:
  "two_decks_world =
     \<lparr>ctl = \<lparr>audioChain = (chain_init new_AudioChain)
                \<lparr>crossfade := Some \<lparr>fade = \<lparr>fade_value = 0, fade_ramp = None\<rparr>,
                                     cf_a = [0], cf_b = [1], cf_disposed = False\<rparr>\<rparr>,
             deckA = Some \<lparr>song_ref = 0, song_name = ''demo'', song_optional = [''on'']\<rparr>,
             deckB = Some \<lparr>song_ref = 1, song_name = ''other'', song_optional = [''on'']\<rparr>,
             activeDeck = ''A'', visuals = [], visualContainer = Some 0,
             ctl_isInitialized = True, animationId = None\<rparr>,
      now = 0, timers = [], frames = [], next_handle = 0, next_ref = 2,
      trace = [ConsoleLog ''Initialized'', ConsoleLog ''Loading song'', SongInit 0,
               DeckAssign ''A'' 0, SongOn 0 ''sectionChange'', SongOn 0 ''bar'',
               Emit (SongLoaded ''A'' ''demo''), ConsoleLog ''Song loaded'',
               ConsoleLog ''Loading song'', SongInit 1,
               DeckAssign ''B'' 1, SongOn 1 ''sectionChange'', SongOn 1 ''bar'',
               Emit (SongLoaded ''B'' ''other''), ConsoleLog ''Song loaded'']\<rparr>"
  by (simp add: two_decks_world_def eval_defs)

lemma one_fade_world_eq:
  "one_fade_world =
     \<lparr>ctl = \<lparr>audioChain = (chain_init new_AudioChain)
                \<lparr>crossfade := Some \<lparr>fade = \<lparr>fade_value = 0, fade_ramp = Some (1, 10)\<rparr>,
                                     cf_a = [0], cf_b = [1], cf_disposed = False\<rparr>\<rparr>,
             deckA = Some \<lparr>song_ref = 0, song_name = ''demo'', song_optional = [''on'']\<rparr>,
             deckB = Some \<lparr>song_ref = 1, song_name = ''other'', song_optional = [''on'']\<rparr>,
             activeDeck = ''A'', visuals = [], visualContainer = Some 0,
             ctl_isInitialized = True, animationId = None\<rparr>,
      now = 0, timers = [\<lparr>due = 10000, captured = ''B''\<rparr>], frames = [], next_handle = 0,
      next_ref = 2,
      trace = [ConsoleLog ''Initialized'', ConsoleLog ''Loading song'', SongInit 0,
               DeckAssign ''A'' 0, SongOn 0 ''sectionChange'', SongOn 0 ''bar'',
               Emit (SongLoaded ''A'' ''demo''), ConsoleLog ''Song loaded'',
               ConsoleLog ''Loading song'', SongInit 1,
               DeckAssign ''B'' 1, SongOn 1 ''sectionChange'', SongOn 1 ''bar'',
               Emit (SongLoaded ''B'' ''other''), ConsoleLog ''Song loaded'',
               Emit (CrossfadeStart ''A'' ''B'' 10), SongPlay 1, SetTimeout 10000]\<rparr>"
  by (simp add: one_fade_world_def eval_defs)

lemma one_visual_world_eq:
  "one_visual_world =
     \<lparr>ctl = \<lparr>audioChain = (chain_init new_AudioChain)
                \<lparr>crossfade := Some \<lparr>fade = \<lparr>fade_value = 0, fade_ramp = None\<rparr>,
                                     cf_a = [], cf_b = [], cf_disposed = False\<rparr>\<rparr>,
             deckA = None, deckB = None, activeDeck = ''A'',
             visuals = [\<lparr>vis_ref = 0, vis_name = ''v1'', vis_has_dispose = True,
                         vis_canvas = Some 1, vis_layer = 0\<rparr>],
             visualContainer = Some 0, ctl_isInitialized = True, animationId = None\<rparr>,
      now = 0, timers = [], frames = [], next_handle = 0, next_ref = 2,
      trace = [ConsoleLog ''Initialized'', ConsoleLog ''Loading visual'', CanvasAppend 1,
               VisualInit 0, Emit (VisualLoaded ''v1'' 0), ConsoleLog ''Visual loaded'']\<rparr>"
  by (simp add: one_visual_world_def eval_defs)

section \<open>The claims\<close>

text \<open>
  C1, as the spec states it: in every state with a crossfade in flight, a second
  \<open>startCrossfade\<close> is either rejected by a single-flight guard, or its completion is
  idempotent and takes the final \<open>activeDeck\<close> from the ramp's actual target, so that
  overlapping calls never end with a wrong \<open>activeDeck\<close>. The source has neither. After
  \<open>startCrossfade(10)\<close> and \<open>switchDeck()\<close> a fade is in flight and the active deck
  (B) agrees with the crossfader (1); a second \<open>startCrossfade(1)\<close> is carried out (two
  completions pending), and once both have fired the crossfader heads for deck A
  (position \<open>0\<close>) while \<open>activeDeck\<close> is \<open>'B'\<close>.
\<close>

theorem C1_counterexample:
  "fade_in_flight overlap_world
   \<and> activeDeck_matches_ramp overlap_world
   \<and> \<not> single_flight_guarded 1 overlap_world
   \<and> length (timers (snd (startCrossfade 1 overlap_world))) = 2
   \<and> timers (advance 20000 (snd (startCrossfade 1 overlap_world))) = []
   \<and> activeDeck (ctl (advance 20000 (snd (startCrossfade 1 overlap_world)))) = ''B''
   \<and> crossfade_position (audioChain (ctl (advance 20000 (snd (startCrossfade 1 overlap_world)))))
       = Some 0
   \<and> \<not> activeDeck_matches_ramp (advance 20000 (snd (startCrossfade 1 overlap_world)))"
proof -
  have w: "overlap_world =
     \<lparr>ctl = \<lparr>audioChain = (chain_init new_AudioChain)
                \<lparr>crossfade := Some \<lparr>fade = \<lparr>fade_value = 1, fade_ramp = None\<rparr>,
                                     cf_a = [0], cf_b = [1], cf_disposed = False\<rparr>\<rparr>,
             deckA = Some \<lparr>song_ref = 0, song_name = ''demo'', song_optional = [''on'']\<rparr>,
             deckB = Some \<lparr>song_ref = 1, song_name = ''other'', song_optional = [''on'']\<rparr>,
             activeDeck = ''B'', visuals = [], visualContainer = Some 0,
             ctl_isInitialized = True, animationId = None\<rparr>,
      now = 0, timers = [\<lparr>due = 10000, captured = ''B''\<rparr>], frames = [], next_handle = 0,
      next_ref = 2,
      trace = [ConsoleLog ''Initialized'', ConsoleLog ''Loading song'', SongInit 0,
               DeckAssign ''A'' 0, SongOn 0 ''sectionChange'', SongOn 0 ''bar'',
               Emit (SongLoaded ''A'' ''demo''), ConsoleLog ''Song loaded'',
               ConsoleLog ''Loading song'', SongInit 1,
               DeckAssign ''B'' 1, SongOn 1 ''sectionChange'', SongOn 1 ''bar'',
               Emit (SongLoaded ''B'' ''other''), ConsoleLog ''Song loaded'',
               Emit (CrossfadeStart ''A'' ''B'' 10), SongPlay 1, SetTimeout 10000,
               Emit (DeckSwitch ''B'')]\<rparr>"
    by (simp add: overlap_world_def run_defs init_def loadSong_def install_song_def
          store_song_def dispose_old_def subscribe_def example_env_def startCrossfade_def
          setTimeout_def switchDeck_def)
  show ?thesis
    unfolding w
    by (simp add: fade_in_flight_def activeDeck_matches_ramp_def single_flight_guarded_def
          deck_position_def crossfade_position_def startCrossfade_def setTimeout_def
          setCrossfade_unfold chain_init_def new_AudioChain_def eff_def advance_def fire_def
          completion_def activeSong_def Let_def)
qed

text \<open>
  C1, amended. \<open>startCrossfade\<close> has no single-flight guard: a second call made while a
  fade is in flight (crossfade node present, a Song in the target deck) is carried out
  like the first; it adds its own completion after the pending ones, which stay. Each
  completion sets \<open>activeDeck\<close> to the deck its call captured. When every pending
  completion captured the deck opposite to the current \<open>activeDeck\<close>, the second call
  captures the same deck, and once all completions have fired \<open>activeDeck\<close> is that
  deck and agrees with the target of the ramp.
\<close>

theorem C1_overlapping_fades_same_target:
  assumes "crossfade (audioChain (ctl w)) \<noteq> None"
    and "(if activeDeck (ctl w) = ''A'' then deckB (ctl w) else deckA (ctl w)) = Some s"
    and "fade_in_flight w"
    and "\<forall>tm \<in> set (timers w). captured tm = other_deck (activeDeck (ctl w)) \<and> due tm \<le> t"
    and "now w + max 0 (d * 1000) \<le> t"
  shows "\<exists>w'. startCrossfade d w = (Inr (), w')
           \<and> \<not> single_flight_guarded d w
           \<and> timers w' = timers w @ [\<lparr>due = now w + max 0 (d * 1000),
                                       captured = other_deck (activeDeck (ctl w))\<rparr>]
           \<and> timers (advance t w') = []
           \<and> activeDeck (ctl (advance t w')) = other_deck (activeDeck (ctl w))
           \<and> activeDeck_matches_ramp (advance t w')"
proof -
  define target where "target = other_deck (activeDeck (ctl w))"
  define v :: real where "v = (if activeDeck (ctl w) = ''A'' then 1 else 0)"
  from assms(1) obtain cf where cf: "crossfade (audioChain (ctl w)) = Some cf" by blast
  have "0 \<le> v" "v \<le> 1" by (simp_all add: v_def)
  from setCrossfade_ok [OF assms(1) this]
  obtain ac where set: "setCrossfade (audioChain (ctl w)) v d = Inr ac" by blast
  define tm where "tm = \<lparr>due = now w + max 0 (d * 1000), captured = target\<rparr>"
  define w' where "w' = snd (startCrossfade d w)"
  have start: "startCrossfade d w = (Inr (), w')"
    using assms(2) set
    by (auto simp add: w'_def startCrossfade_def v_def Let_def split: if_splits)
  have tms: "timers w' = timers w @ [tm]"
    using assms(2) set
    by (auto simp add: w'_def startCrossfade_def setTimeout_def v_def tm_def target_def
          other_deck_def Let_def split: if_splits)
  have chain: "audioChain (ctl w') = ac"
    using assms(2) set
    by (auto simp add: w'_def startCrossfade_def setTimeout_def v_def Let_def split: if_splits)
  have unguarded: "\<not> single_flight_guarded d w"
    using tms by (simp add: single_flight_guarded_def w'_def)
  have all: "\<forall>x \<in> set (timers w'). captured x = target \<and> due x \<le> t"
    using assms(4,5) by (auto simp add: tms tm_def target_def)
  have ne: "timers w' \<noteq> []" by (simp add: tms)
  from run_due_same_target [OF all ne, of "length (timers w')"]
  have fin: "timers (run_due (length (timers w')) t w') = []"
    "activeDeck (ctl (run_due (length (timers w')) t w')) = target"
    by simp_all
  then have a: "timers (advance t w') = []" "activeDeck (ctl (advance t w')) = target"
    by (simp_all add: advance_def Let_def)
  have "audioChain (ctl (advance t w')) = ac" using advance_fields [of t w'] chain by simp
  moreover have "crossfade_position ac = Some v" using set by (rule setCrossfade_position)
  ultimately have m: "activeDeck_matches_ramp (advance t w')"
    using a(2)
    by (simp add: activeDeck_matches_ramp_def deck_position_def target_def other_deck_def v_def)
  from start unguarded tms a m show ?thesis unfolding tm_def target_def by blast
qed

theorem C1_overlapping_fades_same_target_witness:
  "crossfade (audioChain (ctl one_fade_world)) \<noteq> None
   \<and> deckB (ctl one_fade_world) = Some \<lparr>song_ref = 1, song_name = ''other'', song_optional = [''on'']\<rparr>
   \<and> activeDeck (ctl one_fade_world) = ''A''
   \<and> fade_in_flight one_fade_world
   \<and> timers one_fade_world = [\<lparr>due = 10000, captured = ''B''\<rparr>]
   \<and> (\<exists>w'. startCrossfade 1 one_fade_world = (Inr (), w')
         \<and> timers w' = [\<lparr>due = 10000, captured = ''B''\<rparr>, \<lparr>due = 1000, captured = ''B''\<rparr>]
         \<and> timers (advance 20000 w') = []
         \<and> activeDeck (ctl (advance 20000 w')) = ''B''
         \<and> activeDeck_matches_ramp (advance 20000 w'))"
proof -
  have i: "crossfade (audioChain (ctl one_fade_world)) \<noteq> None"
    and a: "activeDeck (ctl one_fade_world) = ''A''"
    and b: "deckB (ctl one_fade_world) = Some \<lparr>song_ref = 1, song_name = ''other'', song_optional = [''on'']\<rparr>"
    and t: "timers one_fade_world = [\<lparr>due = 10000, captured = ''B''\<rparr>]"
    and n: "now one_fade_world = 0"
    by (simp_all add: one_fade_world_eq)
  from a b have s: "(if activeDeck (ctl one_fade_world) = ''A'' then deckB (ctl one_fade_world)
        else deckA (ctl one_fade_world))
      = Some \<lparr>song_ref = 1, song_name = ''other'', song_optional = [''on'']\<rparr>" by simp
  from t have f: "fade_in_flight one_fade_world" by (simp add: fade_in_flight_def)
  from t a have p: "\<forall>tm \<in> set (timers one_fade_world).
      captured tm = other_deck (activeDeck (ctl one_fade_world)) \<and> due tm \<le> 20000"
    by (simp add: other_deck_def)
  from n have d: "now one_fade_world + max 0 (1 * 1000) \<le> 20000" by simp
  from C1_overlapping_fades_same_target [OF i s f p d] a t n
  obtain w' where "startCrossfade 1 one_fade_world = (Inr (), w')"
      "timers w' = [\<lparr>due = 10000, captured = ''B''\<rparr>, \<lparr>due = 1000, captured = ''B''\<rparr>]"
      "timers (advance 20000 w') = []"
      "activeDeck (ctl (advance 20000 w')) = ''B''"
      "activeDeck_matches_ramp (advance 20000 w')"
    by (auto simp add: other_deck_def)
  with i a b t f show ?thesis by blast
qed

text \<open>
  C2. When the module fails to resolve, its default export cannot be constructed, the
  constructor throws or \<open>init()\<close> rejects, \<open>loadSong\<close> throws the error on to its
  caller after logging it, leaves every field of the controller (so the named deck
  slot) as it was, emits no \<open>songLoaded\<close> and calls no \<open>dispose()\<close>.
\<close>

theorem C2_loadSong_failure_keeps_deck:
  assumes "song_modules env songPath = ImportRejects
           \<or> song_modules env songPath = NotConstructor
           \<or> (\<exists>k. song_modules env songPath = Constructor k
                   \<and> (sc_ctor_throws k \<or> sc_init_rejects k))"
  shows "(\<exists>e. fst (loadSong env songPath deck w) = Inl e
              \<and> last (trace (snd (loadSong env songPath deck w))) = ConsoleError e)
         \<and> ctl (snd (loadSong env songPath deck w)) = ctl w
         \<and> deck_slot deck (ctl (snd (loadSong env songPath deck w))) = deck_slot deck (ctl w)
         \<and> \<not> list_ex is_songLoaded (new_effects w (snd (loadSong env songPath deck w)))
         \<and> \<not> list_ex is_songDispose (new_effects w (snd (loadSong env songPath deck w)))"
proof -
  from assms consider
      (import) "song_modules env songPath = ImportRejects"
    | (nocons) "song_modules env songPath = NotConstructor"
    | (ctor) k where "song_modules env songPath = Constructor k" "sc_ctor_throws k"
    | (init) k where "song_modules env songPath = Constructor k" "\<not> sc_ctor_throws k"
        "sc_init_rejects k"
    by blast
  then show ?thesis
  proof cases
    case import
    then show ?thesis by (simp add: loadSong_def new_effects_def Let_def)
  next
    case nocons
    then show ?thesis by (simp add: loadSong_def new_effects_def Let_def)
  next
    case ctor
    then show ?thesis by (simp add: loadSong_def new_effects_def Let_def)
  next
    case init
    then show ?thesis by (simp add: loadSong_def new_effects_def Let_def)
  qed
qed

theorem C2_loadSong_failure_keeps_deck_witness:
  "song_modules example_env ''broken'' =
      Constructor \<lparr>sc_ctor_throws = False, sc_init_rejects = True, sc_name = ''broken'',
                   sc_optional = []\<rparr>
   \<and> fst (loadSong example_env ''broken'' ''A'' (run example_env [Init 0, LoadSong ''demo'' ''A''])) = Inl PluginError
   \<and> deckA (ctl (snd (loadSong example_env ''broken'' ''A'' (run example_env [Init 0, LoadSong ''demo'' ''A'']))))
       = Some \<lparr>song_ref = 0, song_name = ''demo'', song_optional = [''on'']\<rparr>
   \<and> new_effects (run example_env [Init 0, LoadSong ''demo'' ''A''])
        (snd (loadSong example_env ''broken'' ''A'' (run example_env [Init 0, LoadSong ''demo'' ''A''])))
       = [ConsoleLog ''Loading song'', SongInit 1, ConsoleError PluginError]"
proof -
  have m: "song_modules example_env ''broken'' =
      Constructor \<lparr>sc_ctor_throws = False, sc_init_rejects = True, sc_name = ''broken'',
                   sc_optional = []\<rparr>"
    by (simp add: example_env_def)
  then have h: "song_modules example_env ''broken'' = ImportRejects
           \<or> song_modules example_env ''broken'' = NotConstructor
           \<or> (\<exists>k. song_modules example_env ''broken'' = Constructor k
                   \<and> (sc_ctor_throws k \<or> sc_init_rejects k))"
    by simp
  have w: "run example_env [Init 0, LoadSong ''demo'' ''A''] =
     \<lparr>ctl = \<lparr>audioChain = (chain_init new_AudioChain)
                \<lparr>crossfade := Some \<lparr>fade = \<lparr>fade_value = 0, fade_ramp = None\<rparr>,
                                     cf_a = [0], cf_b = [], cf_disposed = False\<rparr>\<rparr>,
             deckA = Some \<lparr>song_ref = 0, song_name = ''demo'', song_optional = [''on'']\<rparr>,
             deckB = None, activeDeck = ''A'', visuals = [], visualContainer = Some 0,
             ctl_isInitialized = True, animationId = None\<rparr>,
      now = 0, timers = [], frames = [], next_handle = 0, next_ref = 1,
      trace = [ConsoleLog ''Initialized'', ConsoleLog ''Loading song'', SongInit 0,
               DeckAssign ''A'' 0, SongOn 0 ''sectionChange'', SongOn 0 ''bar'',
               Emit (SongLoaded ''A'' ''demo''), ConsoleLog ''Song loaded'']\<rparr>"
    by (simp add: run_defs init_def loadSong_def install_song_def store_song_def
          dispose_old_def subscribe_def example_env_def)
  from C2_loadSong_failure_keeps_deck [OF h, of "''A''" "run example_env [Init 0, LoadSong ''demo'' ''A'']"]
  have c: "ctl (snd (loadSong example_env ''broken'' ''A'' (run example_env [Init 0, LoadSong ''demo'' ''A''])))
        = ctl (run example_env [Init 0, LoadSong ''demo'' ''A''])" by blast
  have f: "fst (loadSong example_env ''broken'' ''A'' (run example_env [Init 0, LoadSong ''demo'' ''A''])) = Inl PluginError"
    by (simp add: loadSong_def m Let_def)
  have n: "new_effects (run example_env [Init 0, LoadSong ''demo'' ''A''])
        (snd (loadSong example_env ''broken'' ''A'' (run example_env [Init 0, LoadSong ''demo'' ''A''])))
       = [ConsoleLog ''Loading song'', SongInit 1, ConsoleError PluginError]"
    unfolding w by (simp add: loadSong_def m Let_def new_effects_def)
  from m f c n w show ?thesis by simp
qed

text \<open>
  C3. A successful \<open>loadSong\<close> into deck A or B that already holds a Song calls
  \<open>dispose()\<close> on that Song exactly once (and on no other Song), does so before the
  new Song is assigned to the slot, and leaves the slot holding the new Song.
\<close>

theorem C3_loadSong_disposes_old_once:
  assumes "deck = ''A'' \<or> deck = ''B''"
    and "deck_slot deck (ctl w) = Some old"
    and "loadSong env songPath deck w = (Inr new, w')"
  shows "count_list (new_effects w w') (SongDispose (song_ref old)) = 1
         \<and> length (filter is_songDispose (new_effects w w')) = 1
         \<and> precedes (SongDispose (song_ref old)) (DeckAssign deck (song_ref new)) (new_effects w w')
         \<and> deck_slot deck (ctl w') = Some new"
proof -
  define w1 where "w1 = eff (SongInit (next_ref w))
          ((eff (ConsoleLog ''Loading song'') w)\<lparr>next_ref := Suc (next_ref w)\<rparr>)"
  from assms(3) have inst: "install_song deck new w1 = (Inr new, w')"
    unfolding w1_def by (rule loadSong_ok_cases)
  have tr1: "trace w1 = trace w @ [ConsoleLog ''Loading song'', SongInit (next_ref w)]"
    by (simp add: w1_def)
  have slot1: "deck_slot deck (ctl w1) = Some old"
    using assms(2) by (simp add: w1_def deck_slot_def)
  from install_song_ok(1) [OF inst] assms(1) slot1
  have ne1: "new_effects w1 w' =
      [SongDispose (song_ref old), DeckAssign deck (song_ref new)]
      @ (if ''on'' \<in> set (song_optional new)
         then [SongOn (song_ref new) ''sectionChange'', SongOn (song_ref new) ''bar''] else [])
      @ [Emit (SongLoaded deck (if song_name new = [] then ''unknown'' else song_name new)),
         ConsoleLog ''Song loaded'']"
    by (auto simp add: deck_slot_def)
  define es where "es = new_effects w1 w'"
  have ext: "trace w' = trace w1 @ es"
    unfolding es_def using inst
    by (auto simp add: install_song_def store_song_def dispose_old_def subscribe_def
          rethrow_def new_effects_def Let_def split: sum.splits option.splits if_splits)
  have "new_effects w w' = [ConsoleLog ''Loading song'', SongInit (next_ref w)] @ es"
    using ext tr1 by (simp add: new_effects_def)
  then have ne: "new_effects w w' =
      [ConsoleLog ''Loading song'', SongInit (next_ref w)] @ new_effects w1 w'"
    by (simp add: es_def)
  show ?thesis
    using install_song_ok(2) [OF inst]
    by (simp add: ne ne1 precedes_def)
qed

theorem C3_loadSong_disposes_old_once_witness:
  "deck_slot ''A'' (ctl two_decks_world)
     = Some \<lparr>song_ref = 0, song_name = ''demo'', song_optional = [''on'']\<rparr>
   \<and> fst (loadSong example_env ''other'' ''A'' two_decks_world)
       = Inr \<lparr>song_ref = 2, song_name = ''other'', song_optional = [''on'']\<rparr>
   \<and> count_list (new_effects two_decks_world
                   (snd (loadSong example_env ''other'' ''A'' two_decks_world))) (SongDispose 0) = 1
   \<and> precedes (SongDispose 0) (DeckAssign ''A'' 2)
        (new_effects two_decks_world (snd (loadSong example_env ''other'' ''A'' two_decks_world)))
   \<and> deck_slot ''A'' (ctl (snd (loadSong example_env ''other'' ''A'' two_decks_world)))
       = Some \<lparr>song_ref = 2, song_name = ''other'', song_optional = [''on'']\<rparr>"
proof -
  have d: "''A'' = ''A'' \<or> ''A'' = ''B''" by simp
  have old: "deck_slot ''A'' (ctl two_decks_world)
     = Some \<lparr>song_ref = 0, song_name = ''demo'', song_optional = [''on'']\<rparr>"
    by (simp add: two_decks_world_eq deck_slot_def)
  have f: "fst (loadSong example_env ''other'' ''A'' two_decks_world)
       = Inr \<lparr>song_ref = 2, song_name = ''other'', song_optional = [''on'']\<rparr>"
    by (simp add: two_decks_world_eq eval_defs)
  then have l: "loadSong example_env ''other'' ''A'' two_decks_world
       = (Inr \<lparr>song_ref = 2, song_name = ''other'', song_optional = [''on'']\<rparr>,
          snd (loadSong example_env ''other'' ''A'' two_decks_world))"
    by (simp add: prod_eq_iff)
  from C3_loadSong_disposes_old_once [OF d old l] old f show ?thesis by simp
qed

text \<open>
  C4, as the spec states it: with Songs in both decks and \<open>activeDeck = 'A'\<close>,
  \<open>startCrossfade(d)\<close> emits \<open>crossfadeStart\<close> at once, and after exactly \<open>d\<close>
  seconds its completion stops the previously active deck's Song and sets \<open>activeDeck\<close>
  to \<open>'B'\<close>. With an earlier fade still in flight this fails. After
  \<open>startCrossfade(10)\<close> both decks hold Songs and \<open>activeDeck\<close> is still \<open>'A'\<close>; a
  \<open>startCrossfade(20)\<close> made then is carried out, the earlier completion stops deck A's
  Song (Song 0) at 10 s and makes deck B active, and the completion of this call, at
  exactly 20 s, stops deck B's Song (Song 1).
\<close>

theorem C4_counterexample:
  "deckA (ctl one_fade_world) = Some \<lparr>song_ref = 0, song_name = ''demo'', song_optional = [''on'']\<rparr>
   \<and> deckB (ctl one_fade_world) = Some \<lparr>song_ref = 1, song_name = ''other'', song_optional = [''on'']\<rparr>
   \<and> activeDeck (ctl one_fade_world) = ''A''
   \<and> now one_fade_world = 0
   \<and> fst (startCrossfade 20 one_fade_world) = Inr ()
   \<and> timers (snd (startCrossfade 20 one_fade_world))
       = [\<lparr>due = 10000, captured = ''B''\<rparr>, \<lparr>due = 20000, captured = ''B''\<rparr>]
   \<and> new_effects (snd (startCrossfade 20 one_fade_world))
        (advance 19999 (snd (startCrossfade 20 one_fade_world)))
       = [SongStop 0, Emit (CrossfadeComplete ''B'')]
   \<and> timers (advance 19999 (snd (startCrossfade 20 one_fade_world)))
       = [\<lparr>due = 20000, captured = ''B''\<rparr>]
   \<and> new_effects (advance 19999 (snd (startCrossfade 20 one_fade_world)))
        (advance 20000 (snd (startCrossfade 20 one_fade_world)))
       = [SongStop 1, Emit (CrossfadeComplete ''B'')]"
  unfolding one_fade_world_eq
  by (simp add: startCrossfade_def setTimeout_def setCrossfade_unfold chain_init_def
        new_AudioChain_def eff_def advance_def fire_def completion_def activeSong_def
        new_effects_def Let_def)

text \<open>
  C4, amended. With Songs in both decks, \<open>activeDeck = 'A'\<close>, the crossfade node present
  (no \<open>loadSong\<close> succeeds without it, and no call takes it away:
  \<open>loadSong_ok_has_crossfade\<close>, \<open>exec_keeps_crossfade\<close>) and no other fade in flight,
  \<open>startCrossfade(d)\<close> for \<open>d \<ge> 0\<close> first emits
  \<open>crossfadeStart {from: 'A', to: 'B', duration: d}\<close>, then plays deck B's Song, ramps to
  \<open>1\<close> and sets a timer due \<open>d * 1000\<close> ms from now, with \<open>activeDeck\<close> still \<open>'A'\<close>.
  Nothing happens before the timer is due; from then on its completion has stopped deck
  A's Song, set \<open>activeDeck\<close> to \<open>'B'\<close> and emitted \<open>crossfadeComplete\<close>. The timer is
  set once the awaited \<^verbatim>\<open>inactiveSong.play()\<close> has resolved, which the model takes to be
  at the call. (The first half, up to the timer, needs no condition on other fades.)
\<close>

theorem C4_startCrossfade_then_completion:
  assumes "deckA (ctl w) = Some a" and "deckB (ctl w) = Some b"
    and "activeDeck (ctl w) = ''A''" and "crossfade (audioChain (ctl w)) \<noteq> None"
    and "0 \<le> d"
  shows "\<exists>w'. startCrossfade d w = (Inr (), w')
           \<and> new_effects w w' =
               [Emit (CrossfadeStart ''A'' ''B'' d), SongPlay (song_ref b), SetTimeout (d * 1000)]
           \<and> activeDeck (ctl w') = ''A''
           \<and> crossfade_position (audioChain (ctl w')) = Some 1
           \<and> timers w' = timers w @ [\<lparr>due = now w + d * 1000, captured = ''B''\<rparr>]
           \<and> activeDeck (ctl (completion ''B'' w')) = ''B''
           \<and> new_effects w' (completion ''B'' w') =
                 [SongStop (song_ref a), Emit (CrossfadeComplete ''B'')]
           \<and> (timers w = [] \<longrightarrow>
                (\<forall>t. t < now w + d * 1000 \<longrightarrow>
                     activeDeck (ctl (advance t w')) = ''A'' \<and> new_effects w' (advance t w') = [])
              \<and> (\<forall>t. now w + d * 1000 \<le> t \<longrightarrow>
                     activeDeck (ctl (advance t w')) = ''B''
                   \<and> new_effects w' (advance t w') =
                       [SongStop (song_ref a), Emit (CrossfadeComplete ''B'')]
                   \<and> timers (advance t w') = []))"
proof -
  from assms(4) obtain cf where cf: "crossfade (audioChain (ctl w)) = Some cf" by blast
  define ac where "ac = (if d > 0
      then (audioChain (ctl w))\<lparr>crossfade := Some (cf\<lparr>fade := (fade cf)\<lparr>fade_ramp := Some (1, d)\<rparr>\<rparr>)\<rparr>
      else (audioChain (ctl w))\<lparr>crossfade := Some (cf\<lparr>fade := \<lparr>fade_value = 1, fade_ramp = None\<rparr>\<rparr>)\<rparr>)"
  define tm where "tm = \<lparr>due = now w + d * 1000, captured = ''B''\<rparr>"
  define w' where "w' = w\<lparr>ctl := (ctl w)\<lparr>audioChain := ac\<rparr>, timers := timers w @ [tm],
      trace := trace w @ [Emit (CrossfadeStart ''A'' ''B'' d), SongPlay (song_ref b),
                          SetTimeout (d * 1000)]\<rparr>"
  have set: "setCrossfade (audioChain (ctl w)) 1 d = Inr ac"
    using cf by (simp add: setCrossfade_unfold ac_def)
  have start: "startCrossfade d w = (Inr (), w')"
    using assms(1,2,3,5) set
    by (simp add: startCrossfade_def setTimeout_def eff_def w'_def tm_def Let_def max_def)
  have eff: "new_effects w w' =
      [Emit (CrossfadeStart ''A'' ''B'' d), SongPlay (song_ref b), SetTimeout (d * 1000)]"
    by (simp add: new_effects_def w'_def)
  have act: "activeDeck (ctl w') = ''A''" using assms(3) by (simp add: w'_def)
  have pos: "crossfade_position (audioChain (ctl w')) = Some 1"
    by (simp add: w'_def ac_def crossfade_position_def)
  have tms: "timers w' = timers w @ [tm]" by (simp add: w'_def)
  have later: "timers w = [] \<longrightarrow>
                (\<forall>t. t < now w + d * 1000 \<longrightarrow>
                     activeDeck (ctl (advance t w')) = ''A'' \<and> new_effects w' (advance t w') = [])
              \<and> (\<forall>t. now w + d * 1000 \<le> t \<longrightarrow>
                     activeDeck (ctl (advance t w')) = ''B''
                   \<and> new_effects w' (advance t w') =
                       [SongStop (song_ref a), Emit (CrossfadeComplete ''B'')]
                   \<and> timers (advance t w') = [])"
  proof (intro impI conjI allI)
    fix t
    assume e: "timers w = []" and t: "t < now w + d * 1000"
    then have "advance t w' = w'\<lparr>now := max (now w') t\<rparr>"
      by (simp add: advance_def tms tm_def Let_def)
    then show "activeDeck (ctl (advance t w')) = ''A''" "new_effects w' (advance t w') = []"
      using act by (simp_all add: new_effects_def)
  next
    fix t
    assume e: "timers w = []" and t: "now w + d * 1000 \<le> t"
    then have adv: "advance t w' = (fire tm w')\<lparr>now := max (now (fire tm w')) t\<rparr>"
      by (simp add: advance_def tms tm_def Let_def)
    have song: "activeSong (ctl w') = Some a"
      using assms(1,3) by (simp add: activeSong_def w'_def)
    have f: "fire tm w' = w'\<lparr>ctl := (ctl w')\<lparr>activeDeck := ''B''\<rparr>, timers := [],
               now := max (now w') (due tm),
               trace := trace w' @ [SongStop (song_ref a), Emit (CrossfadeComplete ''B'')]\<rparr>"
      using song e by (simp add: fire_def completion_def eff_def tms tm_def Let_def)
    show "activeDeck (ctl (advance t w')) = ''B''"
      "new_effects w' (advance t w') = [SongStop (song_ref a), Emit (CrossfadeComplete ''B'')]"
      "timers (advance t w') = []"
      by (simp_all add: adv f new_effects_def)
  qed
  have song': "activeSong (ctl w') = Some a"
    using assms(1,3) by (simp add: activeSong_def w'_def)
  then have fired: "activeDeck (ctl (completion ''B'' w')) = ''B''"
    "new_effects w' (completion ''B'' w') = [SongStop (song_ref a), Emit (CrossfadeComplete ''B'')]"
    by (simp_all add: completion_def new_effects_def Let_def)
  show ?thesis
  proof (rule exI [of _ w'], intro conjI)
    show "startCrossfade d w = (Inr (), w')" by (rule start)
    show "new_effects w w' =
        [Emit (CrossfadeStart ''A'' ''B'' d), SongPlay (song_ref b), SetTimeout (d * 1000)]"
      by (rule eff)
    show "activeDeck (ctl w') = ''A''" by (rule act)
    show "crossfade_position (audioChain (ctl w')) = Some 1" by (rule pos)
    show "timers w' = timers w @ [\<lparr>due = now w + d * 1000, captured = ''B''\<rparr>]"
      using tms by (simp add: tm_def)
    show "activeDeck (ctl (completion ''B'' w')) = ''B''" by (rule fired(1))
    show "new_effects w' (completion ''B'' w') =
        [SongStop (song_ref a), Emit (CrossfadeComplete ''B'')]" by (rule fired(2))
    show "timers w = [] \<longrightarrow>
                (\<forall>t. t < now w + d * 1000 \<longrightarrow>
                     activeDeck (ctl (advance t w')) = ''A'' \<and> new_effects w' (advance t w') = [])
              \<and> (\<forall>t. now w + d * 1000 \<le> t \<longrightarrow>
                     activeDeck (ctl (advance t w')) = ''B''
                   \<and> new_effects w' (advance t w') =
                       [SongStop (song_ref a), Emit (CrossfadeComplete ''B'')]
                   \<and> timers (advance t w') = [])"
      by (rule later)
  qed
qed

theorem C4_startCrossfade_then_completion_witness:
  "deckA (ctl two_decks_world) = Some \<lparr>song_ref = 0, song_name = ''demo'', song_optional = [''on'']\<rparr>
   \<and> deckB (ctl two_decks_world) = Some \<lparr>song_ref = 1, song_name = ''other'', song_optional = [''on'']\<rparr>
   \<and> activeDeck (ctl two_decks_world) = ''A''
   \<and> timers two_decks_world = []
   \<and> (\<exists>w'. startCrossfade 4 two_decks_world = (Inr (), w')
         \<and> new_effects two_decks_world w'
             = [Emit (CrossfadeStart ''A'' ''B'' 4), SongPlay 1, SetTimeout 4000]
         \<and> activeDeck (ctl (advance 3999 w')) = ''A''
         \<and> activeDeck (ctl (advance 4000 w')) = ''B''
         \<and> new_effects w' (advance 4000 w') = [SongStop 0, Emit (CrossfadeComplete ''B'')])"
proof -
  have a: "deckA (ctl two_decks_world) = Some \<lparr>song_ref = 0, song_name = ''demo'', song_optional = [''on'']\<rparr>"
    and b: "deckB (ctl two_decks_world) = Some \<lparr>song_ref = 1, song_name = ''other'', song_optional = [''on'']\<rparr>"
    and c: "activeDeck (ctl two_decks_world) = ''A''"
    and i: "crossfade (audioChain (ctl two_decks_world)) \<noteq> None"
    and t: "timers two_decks_world = []"
    and n: "now two_decks_world = 0"
    by (simp_all add: two_decks_world_eq)
  have d: "(0::real) \<le> 4" by simp
  from C4_startCrossfade_then_completion [OF a b c i d] t n
  obtain w' where w': "startCrossfade 4 two_decks_world = (Inr (), w')"
    "new_effects two_decks_world w' =
       [Emit (CrossfadeStart ''A'' ''B'' 4),
        SongPlay (song_ref \<lparr>song_ref = 1, song_name = ''other'', song_optional = [''on'']\<rparr>),
        SetTimeout (4 * 1000)]"
    "\<forall>t. t < 4000 \<longrightarrow> activeDeck (ctl (advance t w')) = ''A''"
    "\<forall>t. 4000 \<le> t \<longrightarrow> activeDeck (ctl (advance t w')) = ''B''
        \<and> new_effects w' (advance t w') =
            [SongStop (song_ref \<lparr>song_ref = 0, song_name = ''demo'', song_optional = [''on'']\<rparr>),
             Emit (CrossfadeComplete ''B'')]"
    by auto
  from w'(3) have e1: "activeDeck (ctl (advance 3999 w')) = ''A''" by simp
  from w'(4) have e2: "activeDeck (ctl (advance 4000 w')) = ''B''"
    "new_effects w' (advance 4000 w') = [SongStop 0, Emit (CrossfadeComplete ''B'')]" by simp_all
  from a b c t w'(1,2) e1 e2 show ?thesis by simp
qed

text \<open>
  C5. Whenever the graph has not been initialised, or has been torn down,
  \<open>getAudioData\<close> returns the default snapshot (a value, not an exception, and not the
  analysers' readings); after \<open>init()\<close> and before \<open>dispose()\<close> it returns the three
  nodes' current readings. The history is any sequence of calls on a new AudioChain.
\<close>

theorem C5_snapshot_follows_lifecycle:
  "getAudioData (chain_run ops) r =
     (if graph_live ops
      then Inr \<lparr>frequencyData = fft_reading r, waveformData = waveform_reading r,
                volume = meter_reading r\<rparr>
      else Inr default_snapshot)"
proof (cases "graph_live ops")
  case True
  then have "isInitialized (chain_run ops)" by (simp add: chain_run_flag)
  with chain_run_nodes [of ops] True show ?thesis
    by (simp add: getAudioData_def)
next
  case False
  then have "\<not> isInitialized (chain_run ops)" by (simp add: chain_run_flag)
  with False show ?thesis
    by (simp add: getAudioData_def default_snapshot_def Float32Array_def)
qed

theorem C5_snapshot_follows_lifecycle_witness:
  "getAudioData (chain_run [ChainInit, ChainSetCrossfade 1 4]) example_readings =
     Inr \<lparr>frequencyData = [Num (-60), NegInfinity], waveformData = [Num (1/4), Num 0],
          volume = Num (-12)\<rparr>
   \<and> getAudioData (chain_run [ChainInit, ChainDispose]) example_readings = Inr default_snapshot
   \<and> getAudioData (chain_run []) example_readings = Inr default_snapshot"
  using C5_snapshot_follows_lifecycle [of "[ChainInit, ChainSetCrossfade 1 4]" example_readings]
    C5_snapshot_follows_lifecycle [of "[ChainInit, ChainDispose]" example_readings]
    C5_snapshot_follows_lifecycle [of "[]" example_readings]
  by (simp add: graph_live_def example_readings_def)

text \<open>
  C6. Whatever value and ramp time \<open>setCrossfade\<close> is given, after whatever history of
  calls, the crossfade position lies between \<open>0\<close> and \<open>1\<close>. The source hands the value
  to the fade parameter as it is and keeps no position of its own, so the bound is the
  parameter's: a value from \<open>0\<close> to \<open>1\<close> becomes the position (at once, or as the
  target of the ramp), any other is refused and the chain stays as it was. Every value
  between a position in range and the target of the ramp in force lies in range as
  well. The same holds of the chain inside a controller after any history of
  controller calls.
\<close>

theorem C6_position_stays_in_range:
  "position_in_range (chain_run ops)
   \<and> position_in_range (chain_exec (chain_run ops) (ChainSetCrossfade v t))
   \<and> (\<forall>cf. crossfade (chain_run ops) = Some cf \<longrightarrow>
         (0 \<le> v \<and> v \<le> 1 \<longrightarrow>
            setCrossfade (chain_run ops) v t =
              Inr ((chain_run ops)\<lparr>crossfade := Some (cf\<lparr>fade :=
                     (if 0 < t then (fade cf)\<lparr>fade_ramp := Some (v, t)\<rparr>
                      else \<lparr>fade_value = v, fade_ramp = None\<rparr>)\<rparr>)\<rparr>)
            \<and> crossfade_position (chain_exec (chain_run ops) (ChainSetCrossfade v t)) = Some v)
       \<and> (v < 0 \<or> 1 < v \<longrightarrow>
            setCrossfade (chain_run ops) v t = Inl RangeError
            \<and> chain_exec (chain_run ops) (ChainSetCrossfade v t) = chain_run ops))
   \<and> (\<forall>cf target secs start x.
         crossfade (chain_run ops) = Some cf \<longrightarrow> fade_ramp (fade cf) = Some (target, secs) \<longrightarrow>
         0 \<le> start \<longrightarrow> start \<le> 1 \<longrightarrow> min start target \<le> x \<longrightarrow> x \<le> max start target \<longrightarrow>
         0 \<le> x \<and> x \<le> 1)
   \<and> position_in_range (audioChain (ctl (run env calls)))"
proof -
  have a: "position_in_range (chain_run ops)" by (rule chain_run_in_range)
  then have b: "position_in_range (chain_exec (chain_run ops) (ChainSetCrossfade v t))"
    by (rule chain_exec_in_range)
  have c: "\<forall>cf. crossfade (chain_run ops) = Some cf \<longrightarrow>
         (0 \<le> v \<and> v \<le> 1 \<longrightarrow>
            setCrossfade (chain_run ops) v t =
              Inr ((chain_run ops)\<lparr>crossfade := Some (cf\<lparr>fade :=
                     (if 0 < t then (fade cf)\<lparr>fade_ramp := Some (v, t)\<rparr>
                      else \<lparr>fade_value = v, fade_ramp = None\<rparr>)\<rparr>)\<rparr>)
            \<and> crossfade_position (chain_exec (chain_run ops) (ChainSetCrossfade v t)) = Some v)
       \<and> (v < 0 \<or> 1 < v \<longrightarrow>
            setCrossfade (chain_run ops) v t = Inl RangeError
            \<and> chain_exec (chain_run ops) (ChainSetCrossfade v t) = chain_run ops)"
  proof (intro allI impI conjI)
    fix cf
    assume cf: "crossfade (chain_run ops) = Some cf" and v: "0 \<le> v \<and> v \<le> 1"
    then show acc: "setCrossfade (chain_run ops) v t =
              Inr ((chain_run ops)\<lparr>crossfade := Some (cf\<lparr>fade :=
                     (if 0 < t then (fade cf)\<lparr>fade_ramp := Some (v, t)\<rparr>
                      else \<lparr>fade_value = v, fade_ramp = None\<rparr>)\<rparr>)\<rparr>)"
      by (simp add: setCrossfade_accepts)
    then show "crossfade_position (chain_exec (chain_run ops) (ChainSetCrossfade v t)) = Some v"
      by (simp add: keep_on_error_def crossfade_position_def)
  next
    fix cf
    assume cf: "crossfade (chain_run ops) = Some cf" and v: "v < 0 \<or> 1 < v"
    then show r: "setCrossfade (chain_run ops) v t = Inl RangeError"
      by (simp add: setCrossfade_refuses)
    then show "chain_exec (chain_run ops) (ChainSetCrossfade v t) = chain_run ops"
      by (simp add: keep_on_error_def)
  qed
  have d: "\<forall>cf target secs start x.
         crossfade (chain_run ops) = Some cf \<longrightarrow> fade_ramp (fade cf) = Some (target, secs) \<longrightarrow>
         0 \<le> start \<longrightarrow> start \<le> 1 \<longrightarrow> min start target \<le> x \<longrightarrow> x \<le> max start target \<longrightarrow>
         0 \<le> x \<and> x \<le> 1"
    using a by (auto simp add: position_in_range_def fade_in_range_def)
  have e: "position_in_range (audioChain (ctl (run env calls)))" by (rule run_in_range)
  show ?thesis
    by (intro conjI) (rule a, rule b, rule c, rule d, rule e)
qed

theorem C6_position_stays_in_range_witness:
  "crossfade (chain_run [ChainInit])
     = Some \<lparr>fade = \<lparr>fade_value = 1/2, fade_ramp = None\<rparr>, cf_a = [], cf_b = [],
             cf_disposed = False\<rparr>
   \<and> setCrossfade (chain_run [ChainInit]) (1/4) 2
       = Inr ((chain_run [ChainInit])\<lparr>crossfade :=
                Some \<lparr>fade = \<lparr>fade_value = 1/2, fade_ramp = Some (1/4, 2)\<rparr>, cf_a = [],
                      cf_b = [], cf_disposed = False\<rparr>\<rparr>)
   \<and> crossfade_position (chain_exec (chain_run [ChainInit]) (ChainSetCrossfade (1/4) 2))
       = Some (1/4)
   \<and> setCrossfade (chain_run [ChainInit]) 2 0 = Inl RangeError
   \<and> chain_exec (chain_run [ChainInit]) (ChainSetCrossfade 2 0) = chain_run [ChainInit]
   \<and> position_in_range (chain_run [ChainInit, ChainSetCrossfade 2 0, ChainSetCrossfade (-3) 5])
   \<and> position_in_range (audioChain (ctl (run example_env [Init 0, SwitchDeck])))"
proof -
  have cf: "crossfade (chain_run [ChainInit])
     = Some \<lparr>fade = \<lparr>fade_value = 1/2, fade_ramp = None\<rparr>, cf_a = [], cf_b = [],
             cf_disposed = False\<rparr>"
    by (simp add: chain_run_def chain_init_def new_AudioChain_def)
  note inside = C6_position_stays_in_range [of "[ChainInit]" "1/4" 2 example_env
      "[Init 0, SwitchDeck]"]
  note outside = C6_position_stays_in_range [of "[ChainInit]" 2 0 example_env
      "[Init 0, SwitchDeck]"]
  note history = C6_position_stays_in_range
      [of "[ChainInit, ChainSetCrossfade 2 0, ChainSetCrossfade (-3) 5]" 0 0 example_env
       "[Init 0, SwitchDeck]"]
  from inside cf have i: "setCrossfade (chain_run [ChainInit]) (1/4) 2
       = Inr ((chain_run [ChainInit])\<lparr>crossfade :=
                Some \<lparr>fade = \<lparr>fade_value = 1/2, fade_ramp = Some (1/4, 2)\<rparr>, cf_a = [],
                      cf_b = [], cf_disposed = False\<rparr>\<rparr>)"
    "crossfade_position (chain_exec (chain_run [ChainInit]) (ChainSetCrossfade (1/4) 2))
       = Some (1/4)"
    by (simp_all add: keep_on_error_def crossfade_position_def)
  from outside cf have r: "setCrossfade (chain_run [ChainInit]) 2 0 = Inl RangeError"
    "chain_exec (chain_run [ChainInit]) (ChainSetCrossfade 2 0) = chain_run [ChainInit]"
    by (simp_all add: keep_on_error_def)
  from history have h:
    "position_in_range (chain_run [ChainInit, ChainSetCrossfade 2 0, ChainSetCrossfade (-3) 5])"
    "position_in_range (audioChain (ctl (run example_env [Init 0, SwitchDeck])))"
    by blast+
  from cf i r h show ?thesis by (simp only: simp_thms)
qed

text \<open>
  C7. After any history of calls, frames and timers, at most one frame callback is
  outstanding, and the handle names it. \<open>startRenderLoop\<close> on a running loop changes
  nothing and requests nothing. \<open>stopRenderLoop\<close> leaves no callback outstanding and
  the handle \<^verbatim>\<open>null\<close>, so that the next frame runs nothing.
\<close>

theorem C7_render_loop_one_callback:
  "length (frames (run env ops)) \<le> 1
   \<and> (frames (run env ops) \<noteq> [] \<longrightarrow> truthy (animationId (ctl (run env ops))))
   \<and> (truthy (animationId (ctl (run env ops))) \<longrightarrow>
        startRenderLoop env (run env ops) = (Inr (), run env ops))
   \<and> frames (stopRenderLoop (run env ops)) = []
   \<and> animationId (ctl (stopRenderLoop (run env ops))) = None
   \<and> frame env (stopRenderLoop (run env ops)) = stopRenderLoop (run env ops)"
proof -
  have ok: "frames_ok (run env ops)" using run_invariants [of env ops] by simp
  then have a: "length (frames (run env ops)) \<le> 1" by (auto simp add: frames_ok_def)
  from ok have b: "frames (run env ops) \<noteq> [] \<longrightarrow> truthy (animationId (ctl (run env ops)))"
    by (cases "animationId (ctl (run env ops))") (auto simp add: frames_ok_def)
  have c: "truthy (animationId (ctl (run env ops))) \<longrightarrow>
        startRenderLoop env (run env ops) = (Inr (), run env ops)"
    by (simp add: startRenderLoop_def)
  from stopRenderLoop_clears [OF ok]
  have d: "frames (stopRenderLoop (run env ops)) = []"
    "animationId (ctl (stopRenderLoop (run env ops))) = None" by simp_all
  from d(1) have e: "frame env (stopRenderLoop (run env ops)) = stopRenderLoop (run env ops)"
    by (rule frame_idle)
  from a b c d e show ?thesis by blast
qed

theorem C7_render_loop_one_callback_witness:
  "frames (run example_env [Init 0, Play, Frame]) = [2]
   \<and> truthy (animationId (ctl (run example_env [Init 0, Play, Frame])))
   \<and> startRenderLoop example_env (run example_env [Init 0, Play, Frame])
       = (Inr (), run example_env [Init 0, Play, Frame])
   \<and> frames (stopRenderLoop (run example_env [Init 0, Play, Frame])) = []"
proof -
  have f: "frames (run example_env [Init 0, Play, Frame]) = [2]"
    by (simp add: run_defs init_def play_def startRenderLoop_def render_def example_env_def)
  from C7_render_loop_one_callback [of example_env "[Init 0, Play, Frame]"] f
  show ?thesis by simp
qed

text \<open>
  C8. After any history, \<open>removeVisual(v)\<close> for a visual that is not in the list
  changes nothing and calls nothing. For a visual in the list the first call takes it
  out (once: the list is one shorter and no longer has it), removes its canvas and
  calls its \<open>dispose\<close> if it has one; a second call changes nothing more, so that over
  both calls the canvas is removed once and \<open>dispose\<close> is called once.
\<close>

theorem C8_removeVisual_idempotent:
  "(v \<notin> set (visuals (ctl (run env ops))) \<longrightarrow> removeVisual v (run env ops) = run env ops)
   \<and> removeVisual v (removeVisual v (run env ops)) = removeVisual v (run env ops)
   \<and> (v \<in> set (visuals (ctl (run env ops))) \<longrightarrow>
        visuals (ctl (removeVisual v (run env ops))) = remove1 v (visuals (ctl (run env ops)))
      \<and> length (visuals (ctl (removeVisual v (run env ops))))
          = length (visuals (ctl (run env ops))) - 1
      \<and> v \<notin> set (visuals (ctl (removeVisual v (run env ops))))
      \<and> (\<exists>canvas. vis_canvas v = Some canvas
            \<and> new_effects (run env ops) (removeVisual v (removeVisual v (run env ops)))
                = CanvasRemove canvas
                  # (if vis_has_dispose v then [VisualDispose (vis_ref v)] else [])))"
proof -
  define w where "w = run env ops"
  have ok: "visuals_ok w" using run_invariants [of env ops] by (simp add: w_def)
  then have dist: "distinct (visuals (ctl w))"
    by (simp add: visuals_ok_def distinct_map)
  have absent: "v \<notin> set (visuals (ctl w)) \<longrightarrow> removeVisual v w = w"
    by (simp add: removeVisual_absent)
  have gone: "v \<notin> set (visuals (ctl (removeVisual v w)))"
  proof (cases "v \<in> set (visuals (ctl w))")
    case True
    with dist show ?thesis by (simp add: removeVisual_present)
  next
    case False
    then show ?thesis by (simp add: removeVisual_absent)
  qed
  then have twice: "removeVisual v (removeVisual v w) = removeVisual v w"
    by (rule removeVisual_absent)
  have present: "v \<in> set (visuals (ctl w)) \<longrightarrow>
        visuals (ctl (removeVisual v w)) = remove1 v (visuals (ctl w))
      \<and> length (visuals (ctl (removeVisual v w))) = length (visuals (ctl w)) - 1
      \<and> v \<notin> set (visuals (ctl (removeVisual v w)))
      \<and> (\<exists>canvas. vis_canvas v = Some canvas
            \<and> new_effects w (removeVisual v (removeVisual v w))
                = CanvasRemove canvas
                  # (if vis_has_dispose v then [VisualDispose (vis_ref v)] else []))"
  proof
    assume mem: "v \<in> set (visuals (ctl w))"
    with ok obtain canvas where c: "vis_canvas v = Some canvas"
      by (auto simp add: visuals_ok_def)
    from mem c have "new_effects w (removeVisual v w)
        = CanvasRemove canvas # (if vis_has_dispose v then [VisualDispose (vis_ref v)] else [])"
      by (simp add: removeVisual_present new_effects_def)
    with mem c gone twice show "visuals (ctl (removeVisual v w)) = remove1 v (visuals (ctl w))
      \<and> length (visuals (ctl (removeVisual v w))) = length (visuals (ctl w)) - 1
      \<and> v \<notin> set (visuals (ctl (removeVisual v w)))
      \<and> (\<exists>canvas. vis_canvas v = Some canvas
            \<and> new_effects w (removeVisual v (removeVisual v w))
                = CanvasRemove canvas
                  # (if vis_has_dispose v then [VisualDispose (vis_ref v)] else []))"
      by (simp add: removeVisual_present length_remove1)
  qed
  from absent twice present show ?thesis unfolding w_def by blast
qed

theorem C8_removeVisual_idempotent_witness:
  "example_visual \<in> set (visuals (ctl one_visual_world))
   \<and> visuals (ctl (removeVisual example_visual one_visual_world)) = []
   \<and> removeVisual example_visual (removeVisual example_visual one_visual_world)
       = removeVisual example_visual one_visual_world
   \<and> new_effects one_visual_world
        (removeVisual example_visual (removeVisual example_visual one_visual_world))
       = [CanvasRemove 1, VisualDispose 0]
   \<and> example_visual\<lparr>vis_ref := 7\<rparr> \<notin> set (visuals (ctl one_visual_world))
   \<and> removeVisual (example_visual\<lparr>vis_ref := 7\<rparr>) one_visual_world = one_visual_world"
proof -
  have v: "visuals (ctl one_visual_world) = [example_visual]"
    by (simp add: one_visual_world_eq example_visual_def)
  then have m: "example_visual \<in> set (visuals (ctl one_visual_world))" by simp
  have n: "example_visual\<lparr>vis_ref := 7\<rparr> \<notin> set (visuals (ctl one_visual_world))"
    by (simp add: v example_visual_def)
  have c: "vis_canvas example_visual = Some 1" "vis_has_dispose example_visual"
    "vis_ref example_visual = 0"
    by (simp_all add: example_visual_def)
  note first = C8_removeVisual_idempotent [of example_visual example_env
      "[Init 0, LoadVisual ''v1'' 0]", folded one_visual_world_def]
  note second = C8_removeVisual_idempotent [of "example_visual\<lparr>vis_ref := 7\<rparr>" example_env
      "[Init 0, LoadVisual ''v1'' 0]", folded one_visual_world_def]
  from first m have a: "visuals (ctl (removeVisual example_visual one_visual_world))
      = remove1 example_visual (visuals (ctl one_visual_world))" by blast
  from first have b: "removeVisual example_visual (removeVisual example_visual one_visual_world)
       = removeVisual example_visual one_visual_world" by blast
  from first m obtain canvas where "vis_canvas example_visual = Some canvas"
      "new_effects one_visual_world
        (removeVisual example_visual (removeVisual example_visual one_visual_world))
       = CanvasRemove canvas
         # (if vis_has_dispose example_visual then [VisualDispose (vis_ref example_visual)]
            else [])" by blast
  with c have e: "new_effects one_visual_world
        (removeVisual example_visual (removeVisual example_visual one_visual_world))
       = [CanvasRemove 1, VisualDispose 0]" by simp
  from second n have f: "removeVisual (example_visual\<lparr>vis_ref := 7\<rparr>) one_visual_world
      = one_visual_world" by blast
  from a v have a': "visuals (ctl (removeVisual example_visual one_visual_world)) = []" by simp
  from m a' b e n f show ?thesis by blast
qed

text \<open>
  C9, as the spec states it: in every state \<open>switchDeck\<close> sets the crossfade position,
  flips \<open>activeDeck\<close> and emits \<open>deckSwitch\<close>; it is never a no-op. On a controller
  whose \<open>init\<close> has not run the crossfade node is \<^verbatim>\<open>null\<close>:
  \<open>switchDeck\<close> throws a TypeError before it changes or emits anything.
\<close>

theorem C9_counterexample:
  "switchDeck new_world = (Inl TypeError, new_world)"
  by (simp add: switchDeck_def new_world_def new_DJController_def new_AudioChain_def
        setCrossfade_unfold)

text \<open>
  C9, amended. Once the crossfade node exists, \<open>switchDeck\<close> has no empty-deck guard:
  whatever the decks hold, it sets the crossfade position to the other extreme, flips
  \<open>activeDeck\<close> and emits \<open>deckSwitch\<close> with the new deck; it never leaves the state
  as it was. \<open>startCrossfade\<close>, unlike it, only warns when the target deck is empty.
\<close>

theorem C9_switchDeck_unguarded:
  assumes "crossfade (audioChain (ctl w)) \<noteq> None"
  shows "\<exists>w'. switchDeck w = (Inr (), w') \<and> w' \<noteq> w
           \<and> crossfade_position (audioChain (ctl w')) =
               Some (if activeDeck (ctl w) = ''A'' then 1 else 0)
           \<and> activeDeck (ctl w') = (if activeDeck (ctl w) = ''A'' then ''B'' else ''A'')
           \<and> activeDeck (ctl w') \<noteq> activeDeck (ctl w)
           \<and> new_effects w w' = [Emit (DeckSwitch (activeDeck (ctl w')))]
           \<and> deckA (ctl w') = deckA (ctl w) \<and> deckB (ctl w') = deckB (ctl w)
           \<and> timers w' = timers w
           \<and> ((if activeDeck (ctl w) = ''A'' then deckB (ctl w) else deckA (ctl w)) = None \<longrightarrow>
                 startCrossfade d w
                   = (Inr (), eff (ConsoleWarn ''No song loaded in target deck'') w))"
proof -
  from assms obtain cf where cf: "crossfade (audioChain (ctl w)) = Some cf" by blast
  define v :: real where "v = (if activeDeck (ctl w) = ''A'' then 1 else 0)"
  define ac where "ac = (audioChain (ctl w))\<lparr>crossfade := Some (cf\<lparr>fade := \<lparr>fade_value = v, fade_ramp = None\<rparr>\<rparr>)\<rparr>"
  define w' where "w' = eff (Emit (DeckSwitch (if activeDeck (ctl w) = ''A'' then ''B'' else ''A'')))
       (w\<lparr>ctl := (ctl w)\<lparr>audioChain := ac,
             activeDeck := (if activeDeck (ctl w) = ''A'' then ''B'' else ''A'')\<rparr>\<rparr>)"
  have set: "setCrossfade (audioChain (ctl w)) v 0 = Inr ac"
    using cf by (simp add: setCrossfade_unfold ac_def v_def)
  have sw: "switchDeck w = (Inr (), w')"
    using set by (simp add: switchDeck_def w'_def v_def Let_def)
  have tr: "trace w' = trace w @ [Emit (DeckSwitch (activeDeck (ctl w')))]"
    by (simp add: w'_def)
  have act: "activeDeck (ctl w') = (if activeDeck (ctl w) = ''A'' then ''B'' else ''A'')"
    by (simp add: w'_def)
  then have flip: "activeDeck (ctl w') \<noteq> activeDeck (ctl w)" by simp
  then have ne: "w' \<noteq> w" by auto
  have pos: "crossfade_position (audioChain (ctl w')) = Some v"
    by (simp add: w'_def ac_def crossfade_position_def)
  have rest: "deckA (ctl w') = deckA (ctl w) \<and> deckB (ctl w') = deckB (ctl w) \<and> timers w' = timers w"
    by (simp add: w'_def)
  have guard: "(if activeDeck (ctl w) = ''A'' then deckB (ctl w) else deckA (ctl w)) = None \<longrightarrow>
      startCrossfade d w = (Inr (), eff (ConsoleWarn ''No song loaded in target deck'') w)"
    by (simp add: startCrossfade_def Let_def)
  from rest have r: "deckA (ctl w') = deckA (ctl w)" "deckB (ctl w') = deckB (ctl w)"
    "timers w' = timers w" by simp_all
  show ?thesis
  proof (rule exI [of _ w'], intro conjI)
    show "switchDeck w = (Inr (), w')" by (rule sw)
    show "w' \<noteq> w" by (rule ne)
    show "crossfade_position (audioChain (ctl w'))
            = Some (if activeDeck (ctl w) = ''A'' then 1 else 0)"
      using pos by (simp add: v_def)
    show "activeDeck (ctl w') = (if activeDeck (ctl w) = ''A'' then ''B'' else ''A'')"
      by (rule act)
    show "activeDeck (ctl w') \<noteq> activeDeck (ctl w)" by (rule flip)
    show "new_effects w w' = [Emit (DeckSwitch (activeDeck (ctl w')))]"
      by (rule new_effects_append [OF tr])
    show "deckA (ctl w') = deckA (ctl w)" by (rule r(1))
    show "deckB (ctl w') = deckB (ctl w)" by (rule r(2))
    show "timers w' = timers w" by (rule r(3))
    show "(if activeDeck (ctl w) = ''A'' then deckB (ctl w) else deckA (ctl w)) = None \<longrightarrow>
      startCrossfade d w = (Inr (), eff (ConsoleWarn ''No song loaded in target deck'') w)"
      by (rule guard)
  qed
qed

theorem C9_switchDeck_unguarded_witness:
  "crossfade (audioChain (ctl (run example_env [Init 0]))) \<noteq> None
   \<and> deckB (ctl (run example_env [Init 0])) = None
   \<and> (\<exists>w'. switchDeck (run example_env [Init 0]) = (Inr (), w')
         \<and> crossfade_position (audioChain (ctl w')) = Some 1
         \<and> activeDeck (ctl w') = ''B''
         \<and> new_effects (run example_env [Init 0]) w' = [Emit (DeckSwitch ''B'')])
   \<and> startCrossfade 4 (run example_env [Init 0])
       = (Inr (), eff (ConsoleWarn ''No song loaded in target deck'') (run example_env [Init 0]))"
proof -
  have i: "crossfade (audioChain (ctl (run example_env [Init 0]))) \<noteq> None"
    by (simp add: run_defs init_def)
  have a: "activeDeck (ctl (run example_env [Init 0])) = ''A''"
    by (simp add: run_defs init_def)
  have b: "deckB (ctl (run example_env [Init 0])) = None"
    by (simp add: run_defs init_def)
  from C9_switchDeck_unguarded [OF i, of 4]
  obtain w' where w': "switchDeck (run example_env [Init 0]) = (Inr (), w')"
      "crossfade_position (audioChain (ctl w'))
         = Some (if activeDeck (ctl (run example_env [Init 0])) = ''A'' then 1 else 0)"
      "activeDeck (ctl w')
         = (if activeDeck (ctl (run example_env [Init 0])) = ''A'' then ''B'' else ''A'')"
      "new_effects (run example_env [Init 0]) w' = [Emit (DeckSwitch (activeDeck (ctl w')))]"
    and g: "(if activeDeck (ctl (run example_env [Init 0])) = ''A''
             then deckB (ctl (run example_env [Init 0]))
             else deckA (ctl (run example_env [Init 0]))) = None \<longrightarrow>
        startCrossfade 4 (run example_env [Init 0])
          = (Inr (), eff (ConsoleWarn ''No song loaded in target deck'')
                       (run example_env [Init 0]))"
    by (elim exE conjE) (rule that)
  from g a b have s: "startCrossfade 4 (run example_env [Init 0])
          = (Inr (), eff (ConsoleWarn ''No song loaded in target deck'')
                       (run example_env [Init 0]))" by simp
  from w' a have "switchDeck (run example_env [Init 0]) = (Inr (), w')
         \<and> crossfade_position (audioChain (ctl w')) = Some 1
         \<and> activeDeck (ctl w') = ''B''
         \<and> new_effects (run example_env [Init 0]) w' = [Emit (DeckSwitch ''B'')]" by simp
  then have "\<exists>w'. switchDeck (run example_env [Init 0]) = (Inr (), w')
         \<and> crossfade_position (audioChain (ctl w')) = Some 1
         \<and> activeDeck (ctl w') = ''B''
         \<and> new_effects (run example_env [Init 0]) w' = [Emit (DeckSwitch ''B'')]" ..
  with i b s show ?thesis by (simp only: simp_thms)
qed

text \<open>
  C10. The snapshot \<open>getAudioData\<close> returns for a graph that is not initialised or has
  been torn down: a frequency buffer of length 1024 with every entry \<open>0\<close>, a waveform
  buffer of length 1024 with every entry \<open>0\<close>, and the volume minus infinity, not
  \<open>0\<close>.
\<close>

theorem C10_default_snapshot_shape:
  assumes "\<not> graph_live ops"
  shows "\<exists>d. getAudioData (chain_run ops) r = Inr d
           \<and> length (frequencyData d) = 1024 \<and> (\<forall>x \<in> set (frequencyData d). x = Num 0)
           \<and> length (waveformData d) = 1024 \<and> (\<forall>x \<in> set (waveformData d). x = Num 0)
           \<and> volume d = NegInfinity \<and> volume d \<noteq> Num 0"
proof -
  from assms have "\<not> isInitialized (chain_run ops)" by (simp add: chain_run_flag)
  then show ?thesis by (simp add: getAudioData_def Float32Array_def)
qed

theorem C10_default_snapshot_shape_witness:
  "\<not> graph_live [ChainInit, ChainSetCrossfade 1 0, ChainDispose]
   \<and> (\<exists>d. getAudioData (chain_run [ChainInit, ChainSetCrossfade 1 0, ChainDispose]) example_readings = Inr d
           \<and> length (frequencyData d) = 1024 \<and> set (frequencyData d) = {Num 0}
           \<and> length (waveformData d) = 1024 \<and> set (waveformData d) = {Num 0}
           \<and> volume d = NegInfinity)"
proof -
  have dead: "\<not> graph_live [ChainInit, ChainSetCrossfade 1 0, ChainDispose]"
    by (simp add: graph_live_def)
  from C10_default_snapshot_shape [OF dead, of example_readings]
  obtain d where d: "getAudioData (chain_run [ChainInit, ChainSetCrossfade 1 0, ChainDispose]) example_readings = Inr d"
      "length (frequencyData d) = 1024" "\<forall>x \<in> set (frequencyData d). x = Num 0"
      "length (waveformData d) = 1024" "\<forall>x \<in> set (waveformData d). x = Num 0"
      "volume d = NegInfinity"
    by blast
  from d(2) have "frequencyData d \<noteq> []" by auto
  with d(3) have f: "set (frequencyData d) = {Num 0}" by (cases "frequencyData d") auto
  from d(4) have "waveformData d \<noteq> []" by auto
  with d(5) have g: "set (waveformData d) = {Num 0}" by (cases "waveformData d") auto
  from dead d f g show ?thesis by blast
qed

end
